theory Spec2Isabelle
  imports Complex_Main
begin

section \<open>JavaScript strings and numbers\<close>

text \<open>
  The functions verified here are those of the route post-processing library
  (\<open>getBookingIDFromShipment\<close>, \<open>getReferenceBooking\<close>, \<open>getCumulativeDistances\<close>, the
  three view builders) and of the request handler \<open>optimizeRouteFunction\<close> with
  \<open>optimizeRoute\<close>.

  A number that the code obtains from \<open>parseInt\<close> is \<open>NaN\<close>, an integer that a double
  represents, or an infinity. A string is a list of 8-bit characters, the code points
  below 256; the white space that \<open>trim\<close> and \<open>parseInt\<close> skip is, among these, the
  tab, the line feed, the vertical tab, the form feed, the carriage return, the space
  and the no-break space. Used as the key of an object, a number stands for its
  rendering as a string: two numbers are the same key exactly when they are equal in
  this type.
\<close>

datatype number = NaN | Num int | Infinity | NegInfinity

text \<open>\<open>String.prototype.trim\<close>, \<open>includes\<close> and \<open>replace\<close> (with a string pattern: the
  first occurrence only), and \<open>parseInt\<close> without a radix: leading white space, an
  optional sign, an optional \<open>0x\<close> prefix selecting radix 16, then the longest run of
  digits; no digit gives \<open>NaN\<close>, and whatever follows the digits is ignored. The
  result is the number value of the integer that the digits denote.\<close>

definition isWhiteSpace :: "char \<Rightarrow> bool" where
  "isWhiteSpace c = (c = CHR 0x09 \<or> c = CHR 0x0A \<or> c = CHR 0x0B \<or> c = CHR 0x0C
     \<or> c = CHR 0x0D \<or> c = CHR '' '' \<or> c = CHR 0xA0)"

definition trim :: "string \<Rightarrow> string" where
  "trim s = rev (dropWhile isWhiteSpace (rev (dropWhile isWhiteSpace s)))"

fun startsWith :: "string \<Rightarrow> string \<Rightarrow> bool" where
  "startsWith s [] = True"
| "startsWith [] (p # ps) = False"
| "startsWith (c # cs) (p # ps) = (c = p \<and> startsWith cs ps)"

fun includes_str :: "string \<Rightarrow> string \<Rightarrow> bool" where
  "includes_str [] p = (p = [])"
| "includes_str (c # cs) p = (startsWith (c # cs) p \<or> includes_str cs p)"

fun replace :: "string \<Rightarrow> string \<Rightarrow> string \<Rightarrow> string" where
  "replace [] p r = (if p = [] then r else [])"
| "replace (c # cs) p r =
     (if startsWith (c # cs) p then r @ drop (length p) (c # cs) else c # replace cs p r)"

definition digitValue :: "char \<Rightarrow> nat option" where
  "digitValue c =
     (let n = (of_char c :: nat) in
      if 48 \<le> n \<and> n \<le> 57 then Some (n - 48)
      else if 97 \<le> n \<and> n \<le> 122 then Some (n - 87)
      else if 65 \<le> n \<and> n \<le> 90 then Some (n - 55)
      else None)"

definition isRadixDigit :: "nat \<Rightarrow> char \<Rightarrow> bool" where
  "isRadixDigit R c = (case digitValue c of None \<Rightarrow> False | Some d \<Rightarrow> d < R)"

text \<open>The value of a string of digits of the radix (the only strings it is applied to).\<close>

definition radixValue :: "nat \<Rightarrow> string \<Rightarrow> int" where
  "radixValue R z =
     foldl (\<lambda>acc c. case digitValue c of None \<Rightarrow> acc | Some d \<Rightarrow> acc * int R + int d) 0 z"

text \<open>
  The number value of an integer: the nearest double, a tie going to the even
  significand. An integer below \<open>2 ^ 53\<close> in magnitude is a double; a larger one keeps
  its 53 leading bits, rounded; from \<open>2 ^ 1024\<close> on the result is an infinity. (Node
  rounds the exact integer that the digits denote; the language lets an implementation
  replace the decimal digits after the 20th by zeros.)
\<close>

function bitLength :: "int \<Rightarrow> nat" where
  "bitLength n = (if n \<le> 0 then 0 else Suc (bitLength (n div 2)))"
  by pat_completeness auto
termination
  by (relation "measure nat") auto

declare bitLength.simps [simp del]

definition roundSignificand :: "int \<Rightarrow> int" where
  "roundSignificand m =
     (let e = bitLength m - 53;
          q = m div 2 ^ e;
          r = m mod 2 ^ e;
          q' = (if 2 ^ e < 2 * r \<or> (2 * r = 2 ^ e \<and> odd q) then q + 1 else q) in
      q' * 2 ^ e)"

definition roundToDouble :: "int \<Rightarrow> number" where
  "roundToDouble n =
     (let m = \<bar>n\<bar> in
      if m < 2 ^ 53 then Num n
      else if 2 ^ 1024 \<le> roundSignificand m then (if n < 0 then NegInfinity else Infinity)
      else Num (sgn n * roundSignificand m))"

definition parseDigits :: "int \<Rightarrow> nat \<Rightarrow> string \<Rightarrow> number" where
  "parseDigits sign R s =
     (let z = takeWhile (isRadixDigit R) s in
      if z = [] then NaN else roundToDouble (sign * radixValue R z))"

definition parseUnsigned :: "int \<Rightarrow> string \<Rightarrow> number" where
  "parseUnsigned sign s =
     (if startsWith s ''0x'' \<or> startsWith s ''0X''
      then parseDigits sign 16 (drop 2 s)
      else parseDigits sign 10 s)"

definition parseInt :: "string \<Rightarrow> number" where
  "parseInt inputString =
     (case dropWhile isWhiteSpace inputString of
        [] \<Rightarrow> NaN
      | c # cs \<Rightarrow>
          if c = CHR ''-'' then parseUnsigned (- 1) cs
          else if c = CHR ''+'' then parseUnsigned 1 cs
          else parseUnsigned 1 (c # cs))"

section \<open>Configuration constants\<close>

definition MAX_ROUTE_TIME_IN_MINUTES :: int where
  "MAX_ROUTE_TIME_IN_MINUTES = 90"

definition VEHICLE_CAPACITY :: int where
  "VEHICLE_CAPACITY = 7"

definition BOOKING_TOKEN :: string where
  "BOOKING_TOKEN = ''Booking''"

section \<open>Data model\<close>

text \<open>
  Objects are records. A nested object that the code only reads through one path is
  flattened into a field named after the path (\<open>visit.startTime.seconds\<close> is
  \<open>visit_startTime_seconds\<close>). The solver's 64-bit integer fields (seconds, amounts)
  are integers: \<open>parseInt\<close> of the decimal rendering of an integer below \<open>2 ^ 53\<close> in
  magnitude, as times and passenger counts are, is that integer.
  A coordinate is a JavaScript number or \<open>undefined\<close> (\<open>None\<close>); distances are
  numbers, modelled as reals. What the code tests before it reads (an absent visit or
  route, absent metrics, an absent polyline) and what it reads by index (the first
  pickup and delivery of a booking) is optional or a list; the sub-objects it reads
  unguarded (start times, durations, the passengers load of a visit) are present.
\<close>

record location =
  latitude :: "real option"
  longitude :: "real option"

record visit_request =
  arrivalLocation :: location
  duration_seconds :: "int option"

record booking =
  label :: string
  pickups :: "visit_request list"
  deliveries :: "visit_request list"
  booking_passengers_amount :: int

record visit =
  shipmentLabel :: string
  isPickup :: bool
  visit_startTime_seconds :: int
  visit_passengers_amount :: int
  shipmentIndex :: nat

record transition =
  transition_startTime_seconds :: int
  totalDuration_seconds :: int
  travelDistanceMeters :: real

record metrics =
  metrics_travelDuration_seconds :: int
  metrics_visitDuration_seconds :: int
  metrics_totalDuration_seconds :: int
  metrics_travelDistanceMeters :: real

record route =
  vehicleLabel :: string
  visits :: "visit list"
  transitions :: "transition list"
  route_metrics :: "metrics option"
  routePolyline_points :: "string option"

text \<open>What can be thrown: an \<open>Error\<close> with its message, a \<open>TypeError\<close> of the engine
  (a property read on \<open>undefined\<close>), or the failure the solver client reports.\<close>

datatype error = Error string | TypeError | SolverError string

section \<open>Booking id extraction\<close>

definition getBookingIDFromShipment :: "visit option \<Rightarrow> number" where
  "getBookingIDFromShipment visit =
     (case visit of
        None \<Rightarrow> Num (- 1)
      | Some v \<Rightarrow>
          if includes_str (shipmentLabel v) BOOKING_TOKEN
          then parseInt (trim (replace (shipmentLabel v) BOOKING_TOKEN []))
          else parseInt (trim (shipmentLabel v)))"

section \<open>Booking/visit matcher\<close>

record reference =
  ref_booking :: booking
  ref_booking_origin_coordinates :: location
  ref_booking_destination_coordinates :: location

definition getReferenceBooking :: "booking list \<Rightarrow> visit \<Rightarrow> error + reference" where
  "getReferenceBooking bookings visit =
     (case filter (\<lambda>b. label b = shipmentLabel visit) bookings of
        [] \<Rightarrow> Inl (Error (''No booking found with label: '' @ shipmentLabel visit))
      | b # _ \<Rightarrow>
          (case pickups b of
             [] \<Rightarrow> Inl TypeError
           | p # _ \<Rightarrow>
               (case deliveries b of
                  [] \<Rightarrow> Inl TypeError
                | d # _ \<Rightarrow>
                    Inr \<lparr>ref_booking = b,
                         ref_booking_origin_coordinates =
                           \<lparr>latitude = latitude (arrivalLocation p),
                            longitude = longitude (arrivalLocation p)\<rparr>,
                         ref_booking_destination_coordinates =
                           \<lparr>latitude = latitude (arrivalLocation d),
                            longitude = longitude (arrivalLocation d)\<rparr>\<rparr>)))"

section \<open>Cumulative distance reconstructor\<close>

record distance_entry =
  visitIndex :: nat
  distanceMeters :: real

type_synonym distances = "number \<rightharpoonup> distance_entry"

definition matchingTransitions :: "transition list \<Rightarrow> visit \<Rightarrow> transition list" where
  "matchingTransitions trs visit =
     filter (\<lambda>t. transition_startTime_seconds t + totalDuration_seconds t
                  = visit_startTime_seconds visit) trs"

definition visitStep ::
  "transition list \<Rightarrow> real \<times> distances \<Rightarrow> visit \<Rightarrow> nat \<Rightarrow> real \<times> distances" where
  "visitStep trs st visit index =
     (case matchingTransitions trs visit of
        [] \<Rightarrow> st
      | t # _ \<Rightarrow>
          (let cumulativeDistance = fst st + travelDistanceMeters t in
           (cumulativeDistance,
            (snd st)(getBookingIDFromShipment (Some visit) \<mapsto>
               \<lparr>visitIndex = index, distanceMeters = cumulativeDistance\<rparr>))))"

fun forEachVisit ::
  "transition list \<Rightarrow> nat \<Rightarrow> visit list \<Rightarrow> real \<times> distances \<Rightarrow> real \<times> distances" where
  "forEachVisit trs index [] st = st"
| "forEachVisit trs index (v # vs) st =
     forEachVisit trs (Suc index) vs (visitStep trs st v index)"

definition getCumulativeDistances :: "visit list \<Rightarrow> transition list \<Rightarrow> distances" where
  "getCumulativeDistances dropoff_visits trs =
     snd (forEachVisit trs 0 dropoff_visits (0, Map.empty))"

section \<open>Per-visit helpers\<close>

definition Math_round :: "real \<Rightarrow> int" where
  "Math_round x = \<lfloor>x + 1 / 2\<rfloor>"

definition getVisitTravelTime :: "visit option \<Rightarrow> int" where
  "getVisitTravelTime visit =
     (case visit of
        None \<Rightarrow> - 1
      | Some v \<Rightarrow> Math_round (real_of_int (visit_startTime_seconds v) / 60))"

definition getPassengersAlongRoute :: "route option \<Rightarrow> int" where
  "getPassengersAlongRoute r =
     (case r of
        None \<Rightarrow> 0
      | Some rt \<Rightarrow>
          foldl (\<lambda>sum count. sum + count) 0
            (filter (\<lambda>count. count > 0) (map visit_passengers_amount (visits rt))))"

definition getPassengersVisit :: "visit \<Rightarrow> bool \<Rightarrow> int" where
  "getPassengersVisit v pickup = visit_passengers_amount v * (if pickup then 1 else - 1)"

text \<open>\<open>entry?.distanceMeters || 0\<close>: a missing entry and a zero distance both give 0.\<close>

definition distanceOrZero :: "distance_entry option \<Rightarrow> real" where
  "distanceOrZero entry =
     (case entry of
        None \<Rightarrow> 0
      | Some e \<Rightarrow> if distanceMeters e = 0 then 0 else distanceMeters e)"

text \<open>\<open>Array.prototype.map\<close> with a callback that may throw: the first error aborts.\<close>

fun mapWithIndex :: "('a \<Rightarrow> nat \<Rightarrow> error + 'b) \<Rightarrow> nat \<Rightarrow> 'a list \<Rightarrow> error + 'b list" where
  "mapWithIndex f i [] = Inr []"
| "mapWithIndex f i (x # xs) =
     (case f x i of
        Inl e \<Rightarrow> Inl e
      | Inr y \<Rightarrow>
          (case mapWithIndex f (Suc i) xs of
             Inl e \<Rightarrow> Inl e
           | Inr ys \<Rightarrow> Inr (y # ys)))"

section \<open>Detailed visits view\<close>

record latlng =
  latlng_lat :: "real option"
  latlng_lng :: "real option"

record visit_detail =
  detail_route_number :: nat
  visit_index :: nat
  booking_id :: number
  origin :: latlng
  destination :: latlng
  distance :: real
  travel_time :: int
  pax_count :: int

record route_detail =
  vehicle :: string
  detail_visits :: "visit_detail list"
  polyline :: "string option"

definition visitDetail ::
  "booking list \<Rightarrow> bool \<Rightarrow> distances \<Rightarrow> nat \<Rightarrow> visit \<Rightarrow> nat \<Rightarrow> error + visit_detail" where
  "visitDetail bookings pickup cumulativeDistances index v visit_idx =
     (case getReferenceBooking bookings v of
        Inl e \<Rightarrow> Inl e
      | Inr ref \<Rightarrow>
          (let bookingId = getBookingIDFromShipment (Some v);
               cumulativeDistance = cumulativeDistances bookingId in
           Inr \<lparr>detail_route_number = index + 1,
                visit_index = visit_idx,
                booking_id = bookingId,
                origin =
                  \<lparr>latlng_lat = latitude (ref_booking_origin_coordinates ref),
                   latlng_lng = longitude (ref_booking_origin_coordinates ref)\<rparr>,
                destination =
                  \<lparr>latlng_lat = latitude (ref_booking_destination_coordinates ref),
                   latlng_lng = longitude (ref_booking_destination_coordinates ref)\<rparr>,
                distance = distanceOrZero cumulativeDistance,
                travel_time = getVisitTravelTime (Some v),
                pax_count = getPassengersVisit v pickup\<rparr>))"

definition routeDetail :: "booking list \<Rightarrow> bool \<Rightarrow> route \<Rightarrow> nat \<Rightarrow> error + route_detail" where
  "routeDetail bookings pickup r index =
     (let pickup_visits = filter (\<lambda>v. isPickup v) (visits r);
          dropoff_visits = filter (\<lambda>v. \<not> isPickup v) (visits r);
          selected = (if pickup then pickup_visits else dropoff_visits);
          cumulativeDistances = getCumulativeDistances dropoff_visits (transitions r) in
      case mapWithIndex (visitDetail bookings pickup cumulativeDistances index) 0 selected of
        Inl e \<Rightarrow> Inl e
      | Inr vs \<Rightarrow>
          Inr \<lparr>vehicle = vehicleLabel r,
               detail_visits = vs,
               polyline = routePolyline_points r\<rparr>)"

definition getVisitsDetail :: "booking list \<Rightarrow> route list \<Rightarrow> bool \<Rightarrow> error + route_detail list" where
  "getVisitsDetail bookings rs pickup = mapWithIndex (routeDetail bookings pickup) 0 rs"

section \<open>Summary view\<close>

definition digitChar :: "nat \<Rightarrow> char" where
  "digitChar d = char_of (48 + d)"

fun decimal :: "nat \<Rightarrow> string" where
  "decimal n = (if n < 10 then [digitChar n] else decimal (n div 10) @ [digitChar (n mod 10)])"

declare decimal.simps [simp del]

text \<open>
  \<open>(parseInt(seconds) / 60).toFixed(2)\<close>: the number of hundredths nearest to
  \<open>seconds / 60\<close> (its fractional part is a multiple of a third, so there is no tie),
  printed with at least one digit before the point and two after it.
\<close>

definition minutesToFixed2 :: "int \<Rightarrow> string" where
  "minutesToFixed2 seconds =
     (let n = nat ((10 * \<bar>seconds\<bar> + 3) div 6);
          ds = decimal n;
          padded = replicate (3 - length ds) (CHR ''0'') @ ds;
          k = length padded - 2 in
      (if seconds < 0 then ''-'' else []) @ take k padded @ ''.'' @ drop k padded)"

record route_stats =
  total_travel_time_minutes :: string
  total_stops_time_minutes :: string
  total_route_time_minutes :: string
  total_route_distance_mts :: real
  max_route_time_minutes :: int

record route_summary =
  route_number :: nat
  total_stops :: nat
  total_pickups :: nat
  total_dropoffs :: nat
  vehicle_label :: string
  total_passengers :: int
  vehicle_capacity :: int
  stats :: route_stats

record summary =
  total_routes :: nat
  summary_routes :: "route_summary list"

record solver_response =
  routes :: "route list"
  response_metrics :: "metrics option"

definition routeSummary :: "route \<Rightarrow> metrics \<Rightarrow> nat \<Rightarrow> route_summary" where
  "routeSummary r m index =
     \<lparr>route_number = index + 1,
      total_stops = length (filter (\<lambda>v. \<not> isPickup v) (visits r)),
      total_pickups = length (filter (\<lambda>v. isPickup v) (visits r)),
      total_dropoffs = length (filter (\<lambda>v. \<not> isPickup v) (visits r)),
      vehicle_label = vehicleLabel r,
      total_passengers = getPassengersAlongRoute (Some r),
      vehicle_capacity = VEHICLE_CAPACITY,
      stats =
        \<lparr>total_travel_time_minutes = minutesToFixed2 (metrics_travelDuration_seconds m),
         total_stops_time_minutes = minutesToFixed2 (metrics_visitDuration_seconds m),
         total_route_time_minutes = minutesToFixed2 (metrics_totalDuration_seconds m),
         total_route_distance_mts = metrics_travelDistanceMeters m,
         max_route_time_minutes = MAX_ROUTE_TIME_IN_MINUTES\<rparr>\<rparr>"

fun summarizeRoutes :: "nat \<Rightarrow> route list \<Rightarrow> route_summary list \<Rightarrow> route_summary list" where
  "summarizeRoutes index [] out = out"
| "summarizeRoutes index (r # rs) out =
     summarizeRoutes (Suc index) rs
       (case route_metrics r of
          None \<Rightarrow> out
        | Some m \<Rightarrow> out @ [routeSummary r m index])"

definition buildOptimizationSummary :: "solver_response \<Rightarrow> summary" where
  "buildOptimizationSummary response =
     \<lparr>total_routes = length (routes response),
      summary_routes = summarizeRoutes 0 (routes response) []\<rparr>"

section \<open>Flat legacy response view\<close>

record legacy_record =
  num_ruta :: nat
  num_viaje :: nat
  posicion_en_ruta :: int
  cod_cliente :: number
  lat :: "real option"
  lng :: "real option"
  distancia :: real
  tiempo_viaje :: int

record api_response =
  status :: string
  responde :: "legacy_record list option"

definition startElement :: "booking list \<Rightarrow> visit list \<Rightarrow> nat \<Rightarrow> error + legacy_record" where
  "startElement bookings dropoff_visits index =
     (let start = \<lparr>num_ruta = index + 1, num_viaje = index + 1, posicion_en_ruta = - 1,
                    cod_cliente = Num 0, lat = Some 0, lng = Some 0,
                    distancia = 0, tiempo_viaje = 0\<rparr> in
      case dropoff_visits of
        [] \<Rightarrow> Inr start
      | firstVisit # _ \<Rightarrow>
          (case getReferenceBooking bookings firstVisit of
             Inl e \<Rightarrow> Inl e
           | Inr ref \<Rightarrow>
               Inr (start\<lparr>lat := latitude (ref_booking_origin_coordinates ref),
                          lng := longitude (ref_booking_origin_coordinates ref)\<rparr>)))"

definition legacyVisit ::
  "booking list \<Rightarrow> distances \<Rightarrow> nat \<Rightarrow> visit \<Rightarrow> nat \<Rightarrow> error + legacy_record" where
  "legacyVisit bookings cumulativeDistances index v visit_idx =
     (case getReferenceBooking bookings v of
        Inl e \<Rightarrow> Inl e
      | Inr ref \<Rightarrow>
          (let bookingId = getBookingIDFromShipment (Some v);
               cumulativeDistance = cumulativeDistances bookingId in
           Inr \<lparr>num_ruta = index + 1,
                num_viaje = index + 1,
                posicion_en_ruta = int visit_idx,
                cod_cliente = bookingId,
                lat = latitude (ref_booking_destination_coordinates ref),
                lng = longitude (ref_booking_destination_coordinates ref),
                distancia = distanceOrZero cumulativeDistance,
                tiempo_viaje = getVisitTravelTime (Some v)\<rparr>))"

definition routeRecords :: "booking list \<Rightarrow> route \<Rightarrow> nat \<Rightarrow> error + legacy_record list" where
  "routeRecords bookings r index =
     (let dropoff_visits = filter (\<lambda>v. \<not> isPickup v) (visits r);
          cumulativeDistances = getCumulativeDistances dropoff_visits (transitions r) in
      case startElement bookings dropoff_visits index of
        Inl e \<Rightarrow> Inl e
      | Inr start \<Rightarrow>
          (case mapWithIndex (legacyVisit bookings cumulativeDistances index) 0 dropoff_visits of
             Inl e \<Rightarrow> Inl e
           | Inr visitDetails \<Rightarrow> Inr (start # visitDetails)))"

fun forEachRoute ::
  "booking list \<Rightarrow> nat \<Rightarrow> route list \<Rightarrow> api_response \<Rightarrow> error + api_response" where
  "forEachRoute bookings index [] results = Inr results"
| "forEachRoute bookings index (r # rs) results =
     (case routeRecords bookings r index of
        Inl e \<Rightarrow> Inl e
      | Inr records \<Rightarrow>
          forEachRoute bookings (Suc index) rs (results\<lparr>responde := Some records\<rparr>))"

definition createVisitsAPIResponse :: "booking list \<Rightarrow> route list \<Rightarrow> error + api_response" where
  "createVisitsAPIResponse bookings rs =
     forEachRoute bookings 0 rs \<lparr>status = ''Ok'', responde = None\<rparr>"

section \<open>Request handler\<close>

text \<open>
  The value of a request property that the handler expects to be an array: a falsy value
  (\<open>undefined\<close>, \<open>null\<close>, \<open>0\<close>, the empty string, \<open>false\<close>), a truthy value that
  is not an array, or an array.
\<close>

datatype 'a property = Falsy | NotArray | IsArray "'a list"

record request_booking =
  job_id :: "string option"
  req_pax_count :: int
  req_origin :: "string option"
  origin_coordinates :: "location option"
  req_destination :: "location option"

record request_vehicle =
  vehicle_number :: "string option"
  start_location :: "string option"
  start_coordinates :: "location option"
  req_vehicle_capacity :: "int option"

record request_parameters =
  param_STOP_TIME_IN_MINUTES :: "int option"
  param_MAX_ROUTE_TIME_IN_MINUTES :: "int option"

record request_body =
  body_bookings :: "request_booking property"
  body_vehicles :: "request_vehicle property"
  body_parameters :: "request_parameters option"

record request =
  body :: "request_body option"

record model_vehicle =
  model_vehicle_label :: string
  travelMode :: string
  costPerHour :: real
  costPerKilometer :: real
  startLocation :: location
  routeDurationLimit_seconds :: int
  loadLimits_passengers_maxLoad :: int

text \<open>\<open>x || d\<close> on an optional number and on an optional string: 0 and the empty string
  are falsy.\<close>

definition numberOr :: "int option \<Rightarrow> int \<Rightarrow> int" where
  "numberOr x d = (case x of None \<Rightarrow> d | Some n \<Rightarrow> if n = 0 then d else n)"

definition stringOr :: "string option \<Rightarrow> string \<Rightarrow> string" where
  "stringOr x d = (case x of None \<Rightarrow> d | Some s \<Rightarrow> if s = [] then d else s)"

text \<open>The table of named locations, the same for origins and start locations.\<close>

definition namedLocation :: "string option \<Rightarrow> location option" where
  "namedLocation name =
     (if name = Some ''AMB Terminal 1''
      then Some \<lparr>latitude = Some (- 33.39733755598884), longitude = Some (- 70.79438713103244)\<rparr>
      else if name = Some ''AMB Terminal 2''
      then Some \<lparr>latitude = Some (- 33.39312201984877), longitude = Some (- 70.79180431908104)\<rparr>
      else None)"

definition locationOr :: "string option \<Rightarrow> location option \<Rightarrow> location" where
  "locationOr name coordinates =
     (case namedLocation name of
        Some l \<Rightarrow> l
      | None \<Rightarrow>
          \<lparr>latitude = (case coordinates of None \<Rightarrow> None | Some c \<Rightarrow> latitude c),
           longitude = (case coordinates of None \<Rightarrow> None | Some c \<Rightarrow> longitude c)\<rparr>)"

definition transformBooking :: "int \<Rightarrow> request_booking \<Rightarrow> nat \<Rightarrow> error + booking" where
  "transformBooking stopTimeInMinutes b index =
     (let originLocation = locationOr (req_origin b) (origin_coordinates b) in
      case req_destination b of
        None \<Rightarrow> Inl TypeError
      | Some dest \<Rightarrow>
          Inr \<lparr>label = stringOr (job_id b) (''Booking '' @ decimal (index + 1)),
               pickups =
                 [\<lparr>arrivalLocation =
                     \<lparr>latitude = latitude originLocation, longitude = longitude originLocation\<rparr>,
                   duration_seconds = None\<rparr>],
               deliveries =
                 [\<lparr>arrivalLocation = \<lparr>latitude = latitude dest, longitude = longitude dest\<rparr>,
                   duration_seconds = Some (stopTimeInMinutes * 60)\<rparr>],
               booking_passengers_amount = req_pax_count b\<rparr>)"

definition transformVehicle :: "int \<Rightarrow> request_vehicle \<Rightarrow> nat \<Rightarrow> error + model_vehicle" where
  "transformVehicle maxRouteTimeInMinutes v index =
     (let startLoc = locationOr (start_location v) (start_coordinates v) in
      Inr \<lparr>model_vehicle_label = stringOr (vehicle_number v) (''Vehicle '' @ decimal (index + 1)),
           travelMode = ''DRIVING'',
           costPerHour = 40,
           costPerKilometer = 10,
           startLocation = \<lparr>latitude = latitude startLoc, longitude = longitude startLoc\<rparr>,
           routeDurationLimit_seconds = maxRouteTimeInMinutes * 60,
           loadLimits_passengers_maxLoad = numberOr (req_vehicle_capacity v) 7\<rparr>)"

text \<open>\<open>transformRequestData\<close>; \<open>.map\<close> on a property that is not an array is a
  \<open>TypeError\<close>.\<close>

definition transformRequestData :: "request_body \<Rightarrow> error + booking list \<times> model_vehicle list" where
  "transformRequestData requestData =
     (let stopTimeInMinutes =
            numberOr (case body_parameters requestData of
                        None \<Rightarrow> None | Some ps \<Rightarrow> param_STOP_TIME_IN_MINUTES ps) 2;
          maxRouteTimeInMinutes =
            numberOr (case body_parameters requestData of
                        None \<Rightarrow> None | Some ps \<Rightarrow> param_MAX_ROUTE_TIME_IN_MINUTES ps) 90 in
      case body_bookings requestData of
        IsArray bs \<Rightarrow>
          (case mapWithIndex (transformBooking stopTimeInMinutes) 0 bs of
             Inl e \<Rightarrow> Inl e
           | Inr bookings \<Rightarrow>
               (case body_vehicles requestData of
                  IsArray vs \<Rightarrow>
                    (case mapWithIndex (transformVehicle maxRouteTimeInMinutes) 0 vs of
                       Inl e \<Rightarrow> Inl e
                     | Inr vehicles \<Rightarrow> Inr (bookings, vehicles))
                | _ \<Rightarrow> Inl TypeError))
      | _ \<Rightarrow> Inl TypeError)"

subsection \<open>The call to the solver\<close>

record environment =
  GOOGLE_PROJECT_ID :: "string option"
  GOOGLE_CLIENT_EMAIL :: "string option"
  GOOGLE_PRIVATE_KEY :: "string option"

record solver_request =
  parent :: string
  model_shipments :: "booking list"
  model_vehicles :: "model_vehicle list"
  globalStartTime_seconds :: int
  globalEndTime_seconds :: int
  populateTransitionPolylines :: bool
  populatePolylines :: bool
  considerRoadTraffic :: bool

text \<open>The solver is outside the repository: a function from the request to its response
  or to the error its client throws once its own retries are exhausted.\<close>

type_synonym solver = "solver_request \<Rightarrow> error + solver_response"

definition unset :: "string option \<Rightarrow> bool" where
  "unset x = (case x of None \<Rightarrow> True | Some s \<Rightarrow> s = [])"

definition createOptimizationClient :: "environment \<Rightarrow> error + string" where
  "createOptimizationClient env =
     (case GOOGLE_PROJECT_ID env of
        None \<Rightarrow> Inl (Error ''GOOGLE_PROJECT_ID environment variable is not set. Please set it before running the application.'')
      | Some projectId \<Rightarrow>
          if projectId = []
          then Inl (Error ''GOOGLE_PROJECT_ID environment variable is not set. Please set it before running the application.'')
          else if unset (GOOGLE_CLIENT_EMAIL env)
          then Inl (Error ''GOOGLE_CLIENT_EMAIL environment variable is not set. Please set it before running the application.'')
          else if unset (GOOGLE_PRIVATE_KEY env)
          then Inl (Error ''GOOGLE_PRIVATE_KEY environment variable is not set. Please set it before running the application.'')
          else Inr projectId)"

definition dateToGoogleFormat :: "int \<Rightarrow> int" where
  "dateToGoogleFormat milliseconds = milliseconds div 1000"

record optimization =
  opt_response :: solver_response
  opt_routes :: "route list"
  visits_detail :: "route_detail list"
  visits_api_response :: api_response
  opt_summary :: summary

text \<open>
  \<open>optimizeRoute\<close> with no options, as the handler calls it: the time window starts at
  the current time \<open>now\<close> (in milliseconds) and lasts 24 hours. The result comes with the
  list of the requests sent to the solver.
\<close>

definition optimizeRoute ::
  "environment \<Rightarrow> int \<Rightarrow> solver \<Rightarrow> booking list \<Rightarrow> model_vehicle list
     \<Rightarrow> (error + optimization) \<times> solver_request list" where
  "optimizeRoute env now solve bookings vehicles =
     (case createOptimizationClient env of
        Inl e \<Rightarrow> (Inl e, [])
      | Inr projectId \<Rightarrow>
          (let startDate = now;
               endDate = startDate + 24 * 60 * 60 * 1000;
               req =
                 \<lparr>parent = ''projects/'' @ projectId,
                  model_shipments = bookings,
                  model_vehicles = vehicles,
                  globalStartTime_seconds = dateToGoogleFormat startDate,
                  globalEndTime_seconds = dateToGoogleFormat endDate,
                  populateTransitionPolylines = True,
                  populatePolylines = True,
                  considerRoadTraffic = False\<rparr> in
           case solve req of
             Inl e \<Rightarrow> (Inl e, [req])
           | Inr response \<Rightarrow>
               (case getVisitsDetail bookings (routes response) False of
                  Inl e \<Rightarrow> (Inl e, [req])
                | Inr detail \<Rightarrow>
                    (case createVisitsAPIResponse bookings (routes response) of
                       Inl e \<Rightarrow> (Inl e, [req])
                     | Inr api \<Rightarrow>
                         (Inr \<lparr>opt_response = response,
                               opt_routes = routes response,
                               visits_detail = detail,
                               visits_api_response = api,
                               opt_summary = buildOptimizationSummary response\<rparr>,
                          [req])))))"

subsection \<open>The handler\<close>

text \<open>
  The entries \<open>sequence\<close>, \<open>arrival_time\<close> and \<open>departure_time\<close> of a visit in the
  response read the visit fields \<open>visitIndex\<close>, \<open>arrivalTime\<close> and \<open>departureTime\<close>,
  which the visits of the solver do not have: they are \<open>undefined\<close> and are left out.
\<close>

record result_visit =
  result_booking_id :: "string option"
  result_location :: string

record result_route =
  result_vehicle :: string
  result_visits :: "result_visit list"

record result =
  result_status :: string
  result_metrics :: "metrics option"
  result_summary :: summary
  result_routes :: "result_route list"
  detailed_visits :: "route_detail list"
  api_response :: api_response

datatype payload =
    ClientError string
  | ServerError error
  | Success result

record http_response =
  code :: nat
  payload :: payload

definition resultRoute :: "booking list \<Rightarrow> route \<Rightarrow> result_route" where
  "resultRoute bookings r =
     \<lparr>result_vehicle = vehicleLabel r,
      result_visits =
        map (\<lambda>v. \<lparr>result_booking_id =
                      (if shipmentIndex v < length bookings
                       then Some (label (bookings ! shipmentIndex v)) else None),
                    result_location = (if isPickup v then ''pickup'' else ''delivery'')\<rparr>)
            (visits r)\<rparr>"

text \<open>
  The handler answers with a status code and a payload; the second component is the
  list of the requests it sent to the solver. An error thrown after the validation is
  caught and answered with 500. Logging is left out.
\<close>

definition optimizeRouteFunction ::
  "environment \<Rightarrow> int \<Rightarrow> solver \<Rightarrow> request \<Rightarrow> http_response \<times> solver_request list" where
  "optimizeRouteFunction env now solve req =
     (case body req of
        None \<Rightarrow> (\<lparr>code = 400, payload = ClientError ''Request body is required''\<rparr>, [])
      | Some b \<Rightarrow>
          if (case body_bookings b of IsArray bs \<Rightarrow> bs = [] | _ \<Rightarrow> True)
          then (\<lparr>code = 400, payload = ClientError ''At least one booking is required''\<rparr>, [])
          else if (case body_vehicles b of IsArray vs \<Rightarrow> vs = [] | _ \<Rightarrow> True)
          then (\<lparr>code = 400, payload = ClientError ''At least one vehicle is required''\<rparr>, [])
          else
            (case transformRequestData b of
               Inl e \<Rightarrow> (\<lparr>code = 500, payload = ServerError e\<rparr>, [])
             | Inr (bookings, vehicles) \<Rightarrow>
                 (case optimizeRoute env now solve bookings vehicles of
                    (Inl e, sent) \<Rightarrow> (\<lparr>code = 500, payload = ServerError e\<rparr>, sent)
                  | (Inr opt, sent) \<Rightarrow>
                      (\<lparr>code = 200,
                        payload = Success
                          \<lparr>result_status = ''success'',
                           result_metrics = response_metrics (opt_response opt),
                           result_summary = opt_summary opt,
                           result_routes = map (resultRoute bookings) (opt_routes opt),
                           detailed_visits = visits_detail opt,
                           api_response = visits_api_response opt\<rparr>\<rparr>,
                       sent))))"

section \<open>Notions used in the statements\<close>

text \<open>The string handed to \<open>parseInt\<close>, before trimming: the label with the first
  occurrence of the token removed when it contains the token, the label itself otherwise.\<close>

definition labelRemainder :: "visit \<Rightarrow> string" where
  "labelRemainder v =
     (if includes_str (shipmentLabel v) BOOKING_TOKEN
      then replace (shipmentLabel v) BOOKING_TOKEN []
      else shipmentLabel v)"

text \<open>A string has a leading integer when, after leading white space and an optional
  sign, it goes on with a decimal digit.\<close>

definition hasLeadingInteger :: "string \<Rightarrow> bool" where
  "hasLeadingInteger s =
     (case dropWhile isWhiteSpace s of
        [] \<Rightarrow> False
      | c # cs \<Rightarrow>
          if c = CHR ''-'' \<or> c = CHR ''+''
          then (case cs of [] \<Rightarrow> False | d # _ \<Rightarrow> isRadixDigit 10 d)
          else isRadixDigit 10 c)"

text \<open>The value of the variable \<open>cumulativeDistance\<close> of \<open>getCumulativeDistances\<close> once the
  visits at positions \<open>0, ..., k\<close> have been processed.\<close>

definition cumulativeDistanceAfter :: "visit list \<Rightarrow> transition list \<Rightarrow> nat \<Rightarrow> real" where
  "cumulativeDistanceAfter dropoff_visits trs k =
     fst (forEachVisit trs 0 (take (Suc k) dropoff_visits) (0, Map.empty))"

text \<open>What a visit adds to the running total: the travel distance of the first
  transition that arrives at it, nothing when no transition does.\<close>

definition arrivalDistance :: "transition list \<Rightarrow> visit \<Rightarrow> real" where
  "arrivalDistance trs v =
     (case matchingTransitions trs v of [] \<Rightarrow> 0 | t # _ \<Rightarrow> travelDistanceMeters t)"


text \<open>Well-formed solver output: the running passenger load, that is every partial sum
  of the signed amounts of the visits in route order (the empty sum of the vehicle at
  its start included), is not negative and does not exceed the capacity.\<close>

fun loadWithin :: "int \<Rightarrow> int \<Rightarrow> int list \<Rightarrow> bool" where
  "loadWithin cap load [] = (0 \<le> load \<and> load \<le> cap)"
| "loadWithin cap load (a # as) =
     (0 \<le> load \<and> load \<le> cap \<and> loadWithin cap (load + a) as)"

definition wellFormedLoad :: "int \<Rightarrow> route \<Rightarrow> bool" where
  "wellFormedLoad cap r = loadWithin cap 0 (map visit_passengers_amount (visits r))"

text \<open>Every visit that takes passengers aboard comes before every visit that sets
  passengers down.\<close>

definition boardingBeforeAlighting :: "route \<Rightarrow> bool" where
  "boardingBeforeAlighting r =
     list_all (\<lambda>a. a \<le> 0) (dropWhile (\<lambda>a. 0 \<le> a) (map visit_passengers_amount (visits r)))"

section \<open>Example data\<close>

definition exampleVisit :: "string \<Rightarrow> bool \<Rightarrow> int \<Rightarrow> int \<Rightarrow> visit" where
  "exampleVisit l p t a =
     \<lparr>shipmentLabel = l, isPickup = p, visit_startTime_seconds = t,
      visit_passengers_amount = a, shipmentIndex = 0\<rparr>"

definition exampleLocation :: "real \<Rightarrow> real \<Rightarrow> location" where
  "exampleLocation la lo = \<lparr>latitude = Some la, longitude = Some lo\<rparr>"

definition exampleBooking :: "string \<Rightarrow> location \<Rightarrow> location \<Rightarrow> int \<Rightarrow> booking" where
  "exampleBooking l from to n =
     \<lparr>label = l,
      pickups = [\<lparr>arrivalLocation = from, duration_seconds = None\<rparr>],
      deliveries = [\<lparr>arrivalLocation = to, duration_seconds = Some 180\<rparr>],
      booking_passengers_amount = n\<rparr>"

definition exampleTransition :: "int \<Rightarrow> int \<Rightarrow> real \<Rightarrow> transition" where
  "exampleTransition s d m =
     \<lparr>transition_startTime_seconds = s, totalDuration_seconds = d, travelDistanceMeters = m\<rparr>"

definition exampleMetrics :: "int \<Rightarrow> int \<Rightarrow> real \<Rightarrow> metrics" where
  "exampleMetrics travel stops m =
     \<lparr>metrics_travelDuration_seconds = travel, metrics_visitDuration_seconds = stops,
      metrics_totalDuration_seconds = travel + stops, metrics_travelDistanceMeters = m\<rparr>"

definition exampleRoute :: "string \<Rightarrow> visit list \<Rightarrow> transition list \<Rightarrow> metrics option \<Rightarrow> route" where
  "exampleRoute l vs ts m =
     \<lparr>vehicleLabel = l, visits = vs, transitions = ts, route_metrics = m,
      routePolyline_points = None\<rparr>"

definition exampleResponse :: "route list \<Rightarrow> solver_response" where
  "exampleResponse rs = \<lparr>routes = rs, response_metrics = None\<rparr>"

definition exampleEnvironment :: environment where
  "exampleEnvironment =
     \<lparr>GOOGLE_PROJECT_ID = Some ''project'', GOOGLE_CLIENT_EMAIL = Some ''account@example.org'',
      GOOGLE_PRIVATE_KEY = Some ''key''\<rparr>"

definition exampleSolver :: solver where
  "exampleSolver req = Inr (exampleResponse [])"

definition exampleRequestVehicle :: request_vehicle where
  "exampleRequestVehicle =
     \<lparr>vehicle_number = Some ''V001'', start_location = Some ''AMB Terminal 2'',
      start_coordinates = None, req_vehicle_capacity = Some 7\<rparr>"

definition exampleRequestBooking :: request_booking where
  "exampleRequestBooking =
     \<lparr>job_id = Some ''12345'', req_pax_count = 2, req_origin = Some ''AMB Terminal 1'',
      origin_coordinates = None, req_destination = Some (exampleLocation (- 33) (- 70))\<rparr>"

definition exampleRequest ::
  "request_booking property \<Rightarrow> request_vehicle property \<Rightarrow> request" where
  "exampleRequest bs vs =
     \<lparr>body = Some \<lparr>body_bookings = bs, body_vehicles = vs, body_parameters = None\<rparr>\<rparr>"

section \<open>Parsing: white space at the ends is irrelevant\<close>

lemma trimEnd_Cons:
  "rev (dropWhile Q (rev (x # xs))) =
     (if rev (dropWhile Q (rev xs)) = [] then (if Q x then [] else [x])
      else x # rev (dropWhile Q (rev xs)))"
  by (auto simp: dropWhile_append)

lemma takeWhile_trimEnd:
  assumes "\<And>x. Q x \<Longrightarrow> \<not> P x"
  shows "takeWhile P (rev (dropWhile Q (rev xs))) = takeWhile P xs"
proof (induction xs)
  case Nil
  show ?case by simp
next
  case (Cons x xs)
  show ?case
  proof (cases "rev (dropWhile Q (rev xs)) = []")
    case True
    with Cons have "takeWhile P xs = []" by simp
    with True assms show ?thesis by (simp only: trimEnd_Cons) auto
  next
    case False
    with Cons show ?thesis by (simp only: trimEnd_Cons) auto
  qed
qed

lemma digit_not_space: "isWhiteSpace c \<Longrightarrow> \<not> isRadixDigit R c"
  by (auto simp: isWhiteSpace_def isRadixDigit_def digitValue_def)

lemma parseDigits_trimEnd:
  "parseDigits sign R (rev (dropWhile isWhiteSpace (rev xs))) = parseDigits sign R xs"
  by (simp add: parseDigits_def takeWhile_trimEnd digit_not_space)

lemma startsWith_trimEnd:
  "startsWith (rev (dropWhile Q (rev xs))) p \<Longrightarrow> startsWith xs p"
proof (induction xs arbitrary: p)
  case Nil
  then show ?case by simp
next
  case (Cons x xs)
  show ?case
  proof (cases p)
    case Nil
    then show ?thesis by simp
  next
    case (Cons q qs)
    with Cons.prems Cons.IH [of qs] show ?thesis
      by (simp only: trimEnd_Cons split: if_splits) (cases qs; simp)+
  qed
qed

lemma trimEnd_keep:
  "\<not> Q x \<Longrightarrow> rev (dropWhile Q (rev (x # xs))) = x # rev (dropWhile Q (rev xs))"
  by (simp add: dropWhile_append)

lemma startsWith_Cons2:
  "startsWith s [p, q] \<Longrightarrow> \<exists>rest. s = p # q # rest"
  by (cases s; simp) (case_tac list; simp)

lemma parseUnsigned_trimEnd:
  "parseUnsigned sign (rev (dropWhile isWhiteSpace (rev xs))) = parseUnsigned sign xs"
proof (cases "startsWith xs ''0x'' \<or> startsWith xs ''0X''")
  case True
  then obtain q rest where xs: "xs = CHR ''0'' # q # rest" and q: "q = CHR ''x'' \<or> q = CHR ''X''"
    using startsWith_Cons2 by blast
  have n0: "\<not> isWhiteSpace (CHR ''0'')" by (simp add: isWhiteSpace_def)
  have nq: "\<not> isWhiteSpace q" using q by (auto simp: isWhiteSpace_def)
  have e: "rev (dropWhile isWhiteSpace (rev xs)) = CHR ''0'' # q # rev (dropWhile isWhiteSpace (rev rest))"
    unfolding xs
    by (simp only: trimEnd_keep [of isWhiteSpace "CHR ''0''", OF n0] trimEnd_keep [of isWhiteSpace q, OF nq])
  show ?thesis
    unfolding e unfolding xs parseUnsigned_def using q
    by (auto simp: parseDigits_trimEnd)
next
  case False
  then have "\<not> (startsWith (rev (dropWhile isWhiteSpace (rev xs))) ''0x''
      \<or> startsWith (rev (dropWhile isWhiteSpace (rev xs))) ''0X'')"
    using startsWith_trimEnd by blast
  with False show ?thesis
    unfolding parseUnsigned_def by (simp only: if_False parseDigits_trimEnd)
qed


lemma parseInt_trim: "parseInt (trim s) = parseInt s"
proof (cases "dropWhile isWhiteSpace s")
  case Nil
  show ?thesis unfolding parseInt_def trim_def Nil by simp
next
  case (Cons c cs)
  then have c: "\<not> isWhiteSpace c"
    by (metis dropWhile_eq_Cons_conv)
  have t: "trim s = c # rev (dropWhile isWhiteSpace (rev cs))"
    unfolding trim_def Cons by (rule trimEnd_keep [of isWhiteSpace c, OF c])
  have d: "dropWhile isWhiteSpace (trim s) = c # rev (dropWhile isWhiteSpace (rev cs))"
    unfolding t using c by simp
  have u: "parseUnsigned sg (c # rev (dropWhile isWhiteSpace (rev cs))) = parseUnsigned sg (c # cs)" for sg
    using parseUnsigned_trimEnd [of sg "c # cs"] by (simp only: trimEnd_keep [of isWhiteSpace c, OF c])
  show ?thesis
    unfolding parseInt_def d Cons by (simp add: u parseUnsigned_trimEnd)
qed

section \<open>Booking id extraction\<close>

lemma getBookingID_Some:
  "getBookingIDFromShipment (Some v) = parseInt (labelRemainder v)"
  by (simp add: getBookingIDFromShipment_def labelRemainder_def parseInt_trim)

lemma parseUnsigned_no_digit:
  "(case cs of [] \<Rightarrow> True | d # _ \<Rightarrow> \<not> isRadixDigit 10 d) \<Longrightarrow> parseUnsigned sg cs = NaN"
  by (cases cs) (auto simp: parseUnsigned_def parseDigits_def isRadixDigit_def digitValue_def)

lemma parseInt_NaN: "\<not> hasLeadingInteger s \<Longrightarrow> parseInt s = NaN"
proof (cases "dropWhile isWhiteSpace s")
  case Nil
  show ?thesis unfolding parseInt_def Nil by simp
next
  case (Cons c cs)
  assume "\<not> hasLeadingInteger s"
  then show ?thesis
    unfolding parseInt_def hasLeadingInteger_def Cons
    by (cases cs) (auto simp: parseUnsigned_no_digit)
qed

lemma radixValue_nonneg_aux:
  "0 \<le> acc \<Longrightarrow>
     0 \<le> foldl (\<lambda>acc c. case digitValue c of None \<Rightarrow> acc | Some d \<Rightarrow> acc * int R + int d) acc z"
  by (induction z arbitrary: acc) (auto split: option.splits)

lemma radixValue_nonneg: "0 \<le> radixValue R z"
  unfolding radixValue_def by (rule radixValue_nonneg_aux) simp

lemma roundSignificand_nonneg: "0 \<le> m \<Longrightarrow> 0 \<le> roundSignificand m"
proof -
  assume m: "0 \<le> m"
  have "0 \<le> m div 2 ^ e" for e :: nat
    using m by (simp add: pos_imp_zdiv_nonneg_iff)
  then show ?thesis
    by (simp add: roundSignificand_def Let_def)
qed

lemma roundToDouble_nonneg: "0 \<le> n \<Longrightarrow> roundToDouble n \<noteq> Num (- 1)"
  using roundSignificand_nonneg [of n]
  by (auto simp: roundToDouble_def Let_def sgn_if)

lemma parseUnsigned_nonneg: "parseUnsigned 1 cs \<noteq> Num (- 1)"
  using radixValue_nonneg [of 16] radixValue_nonneg [of 10]
  by (auto simp: parseUnsigned_def parseDigits_def Let_def roundToDouble_nonneg)

lemma parseInt_minus_one:
  assumes "parseInt s = Num (- 1)"
  shows "\<exists>rest. dropWhile isWhiteSpace s = CHR ''-'' # rest"
proof (cases "dropWhile isWhiteSpace s")
  case Nil
  with assms show ?thesis unfolding parseInt_def by simp
next
  case (Cons c cs)
  with assms show ?thesis
    unfolding parseInt_def using parseUnsigned_nonneg
    by (auto split: if_splits)
qed

lemma startsWith_includes_str: "startsWith s p \<Longrightarrow> includes_str s p"
  by (cases s) (auto elim: startsWith.elims)

lemma startsWith_replace:
  "startsWith s p \<Longrightarrow> p \<noteq> [] \<Longrightarrow> replace s p r = r @ drop (length p) s"
  by (cases s) (auto elim: startsWith.elims)

lemma getBookingID_prefix:
  assumes "startsWith (shipmentLabel v) BOOKING_TOKEN"
  shows "getBookingIDFromShipment (Some v)
     = parseInt (drop (length BOOKING_TOKEN) (shipmentLabel v))"
proof -
  have "BOOKING_TOKEN \<noteq> []" by (simp add: BOOKING_TOKEN_def)
  with assms have "labelRemainder v = drop (length BOOKING_TOKEN) (shipmentLabel v)"
    by (simp add: labelRemainder_def startsWith_includes_str startsWith_replace)
  then show ?thesis by (simp add: getBookingID_Some)
qed

lemmas parse_eval =
  getBookingIDFromShipment_def exampleVisit_def BOOKING_TOKEN_def trim_def parseInt_def
  parseUnsigned_def parseDigits_def roundToDouble_def isWhiteSpace_def isRadixDigit_def
  digitValue_def radixValue_def labelRemainder_def hasLeadingInteger_def

text \<open>
  Claim C3, as stated, says that the result is \<open>-1\<close> only for an absent visit. A present
  visit whose label reads \<open>Booking -1\<close> also gives \<open>-1\<close>: the token is removed and
  \<open>parseInt\<close> reads the signed numeral that is left.
\<close>

theorem getBookingIDFromShipment_minus_one_present:
  "Some (exampleVisit ''Booking -1'' False 0 0) \<noteq> None
   \<and> getBookingIDFromShipment (Some (exampleVisit ''Booking -1'' False 0 0)) = Num (- 1)"
  by (simp add: parse_eval)

text \<open>
  Claim C3, amended. Booking id extraction removes the first occurrence of the token
  from the label and parses what is left as an integer with \<open>parseInt\<close>: a token at
  the start of the label is stripped, a label without the token is parsed as it is, and
  a token inside the label is removed as well, so that \<open>12Booking34\<close> gives 1234. The
  label \<open>Booking 42\<close> and the bare label \<open>42\<close> both give 42. An absent visit gives the
  sentinel \<open>-1\<close>. A present visit whose label (token removed) has no leading integer
  gives \<open>NaN\<close>, never \<open>-1\<close>; and a present visit gives \<open>-1\<close> only when that string,
  after leading white space, is written with a minus sign, that is, when the label
  itself reads as a negative number.
\<close>

theorem getBookingIDFromShipment_extraction:
  "getBookingIDFromShipment (Some (v\<lparr>shipmentLabel := ''Booking 42''\<rparr>)) = Num 42
   \<and> getBookingIDFromShipment (Some (v\<lparr>shipmentLabel := ''42''\<rparr>)) = Num 42
   \<and> getBookingIDFromShipment None = Num (- 1)
   \<and> getBookingIDFromShipment (Some w) = parseInt (labelRemainder w)
   \<and> (startsWith (shipmentLabel w) BOOKING_TOKEN \<longrightarrow>
        getBookingIDFromShipment (Some w)
          = parseInt (drop (length BOOKING_TOKEN) (shipmentLabel w)))
   \<and> (\<not> includes_str (shipmentLabel w) BOOKING_TOKEN \<longrightarrow>
        getBookingIDFromShipment (Some w) = parseInt (shipmentLabel w))
   \<and> getBookingIDFromShipment (Some (v\<lparr>shipmentLabel := ''12Booking34''\<rparr>)) = Num 1234
   \<and> (\<not> hasLeadingInteger (labelRemainder w) \<longrightarrow> getBookingIDFromShipment (Some w) = NaN)
   \<and> (getBookingIDFromShipment (Some w) = Num (- 1) \<longrightarrow>
        (\<exists>rest. dropWhile isWhiteSpace (labelRemainder w) = CHR ''-'' # rest))"
proof (intro conjI impI)
  show "getBookingIDFromShipment (Some (v\<lparr>shipmentLabel := ''Booking 42''\<rparr>)) = Num 42"
    by (simp add: parse_eval)
  show "getBookingIDFromShipment (Some (v\<lparr>shipmentLabel := ''42''\<rparr>)) = Num 42"
    by (simp add: parse_eval)
  show "getBookingIDFromShipment None = Num (- 1)"
    by (simp add: getBookingIDFromShipment_def)
  show "getBookingIDFromShipment (Some w) = parseInt (labelRemainder w)"
    by (rule getBookingID_Some)
  show "getBookingIDFromShipment (Some w)
      = parseInt (drop (length BOOKING_TOKEN) (shipmentLabel w))"
    if "startsWith (shipmentLabel w) BOOKING_TOKEN"
    using that by (rule getBookingID_prefix)
  show "getBookingIDFromShipment (Some w) = parseInt (shipmentLabel w)"
    if "\<not> includes_str (shipmentLabel w) BOOKING_TOKEN"
    using that by (simp add: getBookingID_Some labelRemainder_def)
  show "getBookingIDFromShipment (Some (v\<lparr>shipmentLabel := ''12Booking34''\<rparr>)) = Num 1234"
    by (simp add: parse_eval)
  show "getBookingIDFromShipment (Some w) = NaN" if "\<not> hasLeadingInteger (labelRemainder w)"
    using that by (simp add: getBookingID_Some parseInt_NaN)
  show "\<exists>rest. dropWhile isWhiteSpace (labelRemainder w) = CHR ''-'' # rest"
    if "getBookingIDFromShipment (Some w) = Num (- 1)"
    using that by (simp add: getBookingID_Some parseInt_minus_one)
qed

text \<open>The two implications of the amended claim C3 at concrete labels.\<close>

theorem getBookingIDFromShipment_extraction_witness:
  "\<not> hasLeadingInteger (labelRemainder (exampleVisit ''Booking abc'' False 0 0))
   \<and> getBookingIDFromShipment (Some (exampleVisit ''Booking abc'' False 0 0)) = NaN
   \<and> getBookingIDFromShipment (Some (exampleVisit '' -1 Booking'' False 0 0)) = Num (- 1)
   \<and> (\<exists>rest. dropWhile isWhiteSpace (labelRemainder (exampleVisit '' -1 Booking'' False 0 0))
         = CHR ''-'' # rest)
   \<and> startsWith (shipmentLabel (exampleVisit ''Booking 7'' False 0 0)) BOOKING_TOKEN
   \<and> getBookingIDFromShipment (Some (exampleVisit ''Booking 7'' False 0 0)) = parseInt '' 7''
   \<and> \<not> includes_str (shipmentLabel (exampleVisit ''8 seats'' False 0 0)) BOOKING_TOKEN
   \<and> getBookingIDFromShipment (Some (exampleVisit ''8 seats'' False 0 0)) = parseInt ''8 seats''"
proof -
  let ?v = "exampleVisit [] True 0 0"
  have h1: "\<not> hasLeadingInteger (labelRemainder (exampleVisit ''Booking abc'' False 0 0))"
    by (simp add: parse_eval)
  have h2: "getBookingIDFromShipment (Some (exampleVisit '' -1 Booking'' False 0 0)) = Num (- 1)"
    by (simp add: parse_eval)
  have h3: "startsWith (shipmentLabel (exampleVisit ''Booking 7'' False 0 0)) BOOKING_TOKEN"
    by (simp add: exampleVisit_def BOOKING_TOKEN_def)
  have h4: "\<not> includes_str (shipmentLabel (exampleVisit ''8 seats'' False 0 0)) BOOKING_TOKEN"
    by (simp add: exampleVisit_def BOOKING_TOKEN_def)
  from h1 getBookingIDFromShipment_extraction [of ?v "exampleVisit ''Booking abc'' False 0 0"]
  have a: "getBookingIDFromShipment (Some (exampleVisit ''Booking abc'' False 0 0)) = NaN"
    by blast
  from h2 getBookingIDFromShipment_extraction [of ?v "exampleVisit '' -1 Booking'' False 0 0"]
  have b: "\<exists>rest. dropWhile isWhiteSpace (labelRemainder (exampleVisit '' -1 Booking'' False 0 0))
         = CHR ''-'' # rest"
    by blast
  from h3 getBookingIDFromShipment_extraction [of ?v "exampleVisit ''Booking 7'' False 0 0"]
  have "getBookingIDFromShipment (Some (exampleVisit ''Booking 7'' False 0 0))
      = parseInt (drop (length BOOKING_TOKEN) (shipmentLabel (exampleVisit ''Booking 7'' False 0 0)))"
    by blast
  then have c: "getBookingIDFromShipment (Some (exampleVisit ''Booking 7'' False 0 0)) = parseInt '' 7''"
    by (simp add: exampleVisit_def BOOKING_TOKEN_def)
  from h4 getBookingIDFromShipment_extraction [of ?v "exampleVisit ''8 seats'' False 0 0"]
  have "getBookingIDFromShipment (Some (exampleVisit ''8 seats'' False 0 0))
      = parseInt (shipmentLabel (exampleVisit ''8 seats'' False 0 0))"
    by blast
  then have d: "getBookingIDFromShipment (Some (exampleVisit ''8 seats'' False 0 0)) = parseInt ''8 seats''"
    by (simp add: exampleVisit_def)
  from h1 h2 h3 h4 a b c d show ?thesis by blast
qed

text \<open>
  Claim C9, as stated, ends with: the sentinel \<open>-1\<close> is produced exclusively for a null or
  undefined visit. A present visit with the bare label \<open>-1\<close> (no token) gives \<open>-1\<close> too.
\<close>

theorem getBookingIDFromShipment_minus_one_bare_label:
  "Some (exampleVisit ''-1'' False 0 0) \<noteq> None
   \<and> \<not> includes_str (shipmentLabel (exampleVisit ''-1'' False 0 0)) BOOKING_TOKEN
   \<and> getBookingIDFromShipment (Some (exampleVisit ''-1'' False 0 0)) = Num (- 1)"
  by (simp add: parse_eval)

text \<open>
  Claim C9, amended. For every present visit whose label neither contains the token nor
  has a leading integer the result is \<open>NaN\<close>, not \<open>-1\<close>; the function is total on
  present visits, so nothing is raised. The value \<open>-1\<close> is returned for an absent visit,
  and for a present visit only when the parsed string does have a leading integer: it is
  then a parsed value, never the outcome of a failed parse.
\<close>

theorem getBookingIDFromShipment_parse_failure:
  "(\<not> includes_str (shipmentLabel v) BOOKING_TOKEN \<and> \<not> hasLeadingInteger (shipmentLabel v)
      \<longrightarrow> getBookingIDFromShipment (Some v) = NaN \<and> getBookingIDFromShipment (Some v) \<noteq> Num (- 1))
   \<and> (getBookingIDFromShipment (Some v) = Num (- 1) \<longrightarrow> hasLeadingInteger (labelRemainder v))
   \<and> getBookingIDFromShipment None = Num (- 1)"
proof (intro conjI impI)
  assume "\<not> includes_str (shipmentLabel v) BOOKING_TOKEN \<and> \<not> hasLeadingInteger (shipmentLabel v)"
  then have "\<not> hasLeadingInteger (labelRemainder v)"
    by (simp add: labelRemainder_def)
  then show "getBookingIDFromShipment (Some v) = NaN"
    by (simp add: getBookingID_Some parseInt_NaN)
  then show "getBookingIDFromShipment (Some v) \<noteq> Num (- 1)" by simp
next
  assume "getBookingIDFromShipment (Some v) = Num (- 1)"
  then show "hasLeadingInteger (labelRemainder v)"
    using parseInt_NaN [of "labelRemainder v"] by (auto simp: getBookingID_Some)
next
  show "getBookingIDFromShipment None = Num (- 1)"
    by (simp add: getBookingIDFromShipment_def)
qed

text \<open>The two implications of the amended claim C9 at concrete labels.\<close>

theorem getBookingIDFromShipment_parse_failure_witness:
  "\<not> includes_str (shipmentLabel (exampleVisit ''V001'' False 0 0)) BOOKING_TOKEN
   \<and> \<not> hasLeadingInteger (shipmentLabel (exampleVisit ''V001'' False 0 0))
   \<and> getBookingIDFromShipment (Some (exampleVisit ''V001'' False 0 0)) = NaN
   \<and> getBookingIDFromShipment (Some (exampleVisit ''Booking -1'' True 0 0)) = Num (- 1)
   \<and> hasLeadingInteger (labelRemainder (exampleVisit ''Booking -1'' True 0 0))"
proof -
  have h1: "\<not> includes_str (shipmentLabel (exampleVisit ''V001'' False 0 0)) BOOKING_TOKEN
     \<and> \<not> hasLeadingInteger (shipmentLabel (exampleVisit ''V001'' False 0 0))"
    by (simp add: parse_eval)
  have h2: "getBookingIDFromShipment (Some (exampleVisit ''Booking -1'' True 0 0)) = Num (- 1)"
    by (simp add: parse_eval)
  from h1 h2
    getBookingIDFromShipment_parse_failure [of "exampleVisit ''V001'' False 0 0"]
    getBookingIDFromShipment_parse_failure [of "exampleVisit ''Booking -1'' True 0 0"]
  show ?thesis by blast
qed

section \<open>Booking/visit matcher\<close>

lemmas example_defs = exampleVisit_def exampleLocation_def exampleBooking_def exampleTransition_def

text \<open>
  Claim C1, as stated, says that a label matching more than one booking makes the matcher
  fail. With two bookings labelled \<open>7\<close> and a visit labelled \<open>7\<close> the matcher returns
  the first of them.
\<close>

theorem getReferenceBooking_ambiguous_label:
  "length (filter (\<lambda>b. label b = shipmentLabel (exampleVisit ''7'' False 0 (- 1)))
      [exampleBooking ''7'' (exampleLocation 1 2) (exampleLocation 3 4) 1,
       exampleBooking ''7'' (exampleLocation 5 6) (exampleLocation 7 8) 1]) = 2
   \<and> getReferenceBooking
        [exampleBooking ''7'' (exampleLocation 1 2) (exampleLocation 3 4) 1,
         exampleBooking ''7'' (exampleLocation 5 6) (exampleLocation 7 8) 1]
        (exampleVisit ''7'' False 0 (- 1))
      = Inr \<lparr>ref_booking = exampleBooking ''7'' (exampleLocation 1 2) (exampleLocation 3 4) 1,
             ref_booking_origin_coordinates = exampleLocation 1 2,
             ref_booking_destination_coordinates = exampleLocation 3 4\<rparr>"
  by (simp add: getReferenceBooking_def example_defs)

text \<open>
  Claim C1, amended. The matcher raises the error \<open>No booking found with label: L\<close>,
  naming the visit's label \<open>L\<close>, when no booking has that label, and that error is
  raised only then. When some booking matches, it takes the first match in the order of
  the booking list (the unique one when only one matches) and, provided that booking has
  a pickup and a delivery, returns it with their coordinates; several matches are not an
  error. Whatever it returns is a booking of the list whose label is the visit's label.
\<close>

theorem getReferenceBooking_first_match:
  "(filter (\<lambda>b. label b = shipmentLabel v) bs = [] \<longrightarrow>
      getReferenceBooking bs v = Inl (Error (''No booking found with label: '' @ shipmentLabel v)))
   \<and> (filter (\<lambda>b. label b = shipmentLabel v) bs = b # rest
        \<and> pickups b = p # ps \<and> deliveries b = d # ds \<longrightarrow>
      getReferenceBooking bs v =
        Inr \<lparr>ref_booking = b,
             ref_booking_origin_coordinates =
               \<lparr>latitude = latitude (arrivalLocation p),
                longitude = longitude (arrivalLocation p)\<rparr>,
             ref_booking_destination_coordinates =
               \<lparr>latitude = latitude (arrivalLocation d),
                longitude = longitude (arrivalLocation d)\<rparr>\<rparr>)
   \<and> (getReferenceBooking bs v = Inl (Error m) \<longrightarrow>
        filter (\<lambda>b. label b = shipmentLabel v) bs = []
        \<and> m = ''No booking found with label: '' @ shipmentLabel v)
   \<and> (getReferenceBooking bs v = Inr r \<longrightarrow>
        ref_booking r \<in> set bs \<and> label (ref_booking r) = shipmentLabel v
        \<and> ref_booking r = hd (filter (\<lambda>b. label b = shipmentLabel v) bs))"
proof (intro conjI impI)
  assume "filter (\<lambda>b. label b = shipmentLabel v) bs = []"
  then show "getReferenceBooking bs v = Inl (Error (''No booking found with label: '' @ shipmentLabel v))"
    by (simp add: getReferenceBooking_def)
next
  assume "filter (\<lambda>b. label b = shipmentLabel v) bs = b # rest
        \<and> pickups b = p # ps \<and> deliveries b = d # ds"
  then show "getReferenceBooking bs v =
        Inr \<lparr>ref_booking = b,
             ref_booking_origin_coordinates =
               \<lparr>latitude = latitude (arrivalLocation p),
                longitude = longitude (arrivalLocation p)\<rparr>,
             ref_booking_destination_coordinates =
               \<lparr>latitude = latitude (arrivalLocation d),
                longitude = longitude (arrivalLocation d)\<rparr>\<rparr>"
    by (simp add: getReferenceBooking_def)
next
  assume e: "getReferenceBooking bs v = Inl (Error m)"
  then show "filter (\<lambda>b. label b = shipmentLabel v) bs = []"
    by (simp add: getReferenceBooking_def split: list.splits)
  from e show "m = ''No booking found with label: '' @ shipmentLabel v"
    by (simp add: getReferenceBooking_def split: list.splits)
next
  assume r: "getReferenceBooking bs v = Inr r"
  then obtain b rest where f: "filter (\<lambda>b. label b = shipmentLabel v) bs = b # rest"
    and b: "ref_booking r = b"
    by (auto simp: getReferenceBooking_def split: list.splits)
  have "b \<in> set (filter (\<lambda>b. label b = shipmentLabel v) bs)"
    unfolding f by simp
  then show "ref_booking r \<in> set bs" "label (ref_booking r) = shipmentLabel v"
    using b by auto
  show "ref_booking r = hd (filter (\<lambda>b. label b = shipmentLabel v) bs)"
    using b f by simp
qed

text \<open>The amended claim C1 at a visit with no booking and at a visit with one.\<close>

theorem getReferenceBooking_first_match_witness:
  "filter (\<lambda>b. label b = shipmentLabel (exampleVisit ''9'' False 0 (- 1)))
      [exampleBooking ''7'' (exampleLocation 1 2) (exampleLocation 3 4) 1,
       exampleBooking ''8'' (exampleLocation 5 6) (exampleLocation 7 8) 1] = []
   \<and> getReferenceBooking
        [exampleBooking ''7'' (exampleLocation 1 2) (exampleLocation 3 4) 1,
         exampleBooking ''8'' (exampleLocation 5 6) (exampleLocation 7 8) 1]
        (exampleVisit ''9'' False 0 (- 1))
      = Inl (Error ''No booking found with label: 9'')
   \<and> getReferenceBooking
        [exampleBooking ''7'' (exampleLocation 1 2) (exampleLocation 3 4) 1,
         exampleBooking ''8'' (exampleLocation 5 6) (exampleLocation 7 8) 1]
        (exampleVisit ''8'' False 0 (- 1))
      = Inr \<lparr>ref_booking = exampleBooking ''8'' (exampleLocation 5 6) (exampleLocation 7 8) 1,
             ref_booking_origin_coordinates = exampleLocation 5 6,
             ref_booking_destination_coordinates = exampleLocation 7 8\<rparr>"
proof -
  let ?bs = "[exampleBooking ''7'' (exampleLocation 1 2) (exampleLocation 3 4) 1,
              exampleBooking ''8'' (exampleLocation 5 6) (exampleLocation 7 8) 1]"
  let ?b = "exampleBooking ''8'' (exampleLocation 5 6) (exampleLocation 7 8) 1"
  have h1: "filter (\<lambda>b. label b = shipmentLabel (exampleVisit ''9'' False 0 (- 1))) ?bs = []"
    by (simp add: example_defs)
  have h2: "filter (\<lambda>b. label b = shipmentLabel (exampleVisit ''8'' False 0 (- 1))) ?bs = ?b # []
     \<and> pickups ?b = \<lparr>arrivalLocation = exampleLocation 5 6, duration_seconds = None\<rparr> # []
     \<and> deliveries ?b = \<lparr>arrivalLocation = exampleLocation 7 8, duration_seconds = Some 180\<rparr> # []"
    by (simp add: example_defs)
  have a: "getReferenceBooking ?bs (exampleVisit ''9'' False 0 (- 1))
      = Inl (Error (''No booking found with label: '' @ shipmentLabel (exampleVisit ''9'' False 0 (- 1))))"
    using h1 getReferenceBooking_first_match [of "exampleVisit ''9'' False 0 (- 1)" ?bs] by blast
  have b: "getReferenceBooking ?bs (exampleVisit ''8'' False 0 (- 1))
      = Inr \<lparr>ref_booking = ?b,
             ref_booking_origin_coordinates =
               \<lparr>latitude = latitude (arrivalLocation \<lparr>arrivalLocation = exampleLocation 5 6, duration_seconds = None\<rparr>),
                longitude = longitude (arrivalLocation \<lparr>arrivalLocation = exampleLocation 5 6, duration_seconds = None\<rparr>)\<rparr>,
             ref_booking_destination_coordinates =
               \<lparr>latitude = latitude (arrivalLocation \<lparr>arrivalLocation = exampleLocation 7 8, duration_seconds = Some 180\<rparr>),
                longitude = longitude (arrivalLocation \<lparr>arrivalLocation = exampleLocation 7 8, duration_seconds = Some 180\<rparr>)\<rparr>\<rparr>"
    using h2 getReferenceBooking_first_match [of "exampleVisit ''8'' False 0 (- 1)" ?bs ?b "[]"
        "\<lparr>arrivalLocation = exampleLocation 5 6, duration_seconds = None\<rparr>" "[]"
        "\<lparr>arrivalLocation = exampleLocation 7 8, duration_seconds = Some 180\<rparr>" "[]"]
    by blast
  from a have a': "getReferenceBooking ?bs (exampleVisit ''9'' False 0 (- 1))
      = Inl (Error ''No booking found with label: 9'')"
    by (simp add: exampleVisit_def)
  from b have b': "getReferenceBooking ?bs (exampleVisit ''8'' False 0 (- 1))
      = Inr \<lparr>ref_booking = ?b,
             ref_booking_origin_coordinates = exampleLocation 5 6,
             ref_booking_destination_coordinates = exampleLocation 7 8\<rparr>"
    by (simp add: exampleLocation_def)
  from h1 a' b' show ?thesis by blast
qed


section \<open>Summary view\<close>

lemma summarizeRoutes_eq:
  "summarizeRoutes i rs out =
     out @ List.map_filter (\<lambda>(j, r). map_option (\<lambda>m. routeSummary r m j) (route_metrics r))
             (zip [i..<i + length rs] rs)"
proof (induction rs arbitrary: i out)
  case Nil
  show ?case by simp
next
  case (Cons r rs)
  have z: "zip [i..<i + length (r # rs)] (r # rs) = (i, r) # zip [Suc i..<Suc i + length rs] rs"
  proof -
    have "[i..<i + length (r # rs)] = i # [Suc i..<Suc i + length rs]"
      by (subst upt_rec) simp
    then show ?thesis by simp
  qed
  show ?case
    unfolding z by (cases "route_metrics r") (simp_all add: Cons.IH)
qed

lemma summarizeRoutes_length:
  "length (summarizeRoutes i rs out) = length out + length (filter (\<lambda>r. route_metrics r \<noteq> None) rs)"
  by (induction rs arbitrary: i out) (auto split: option.splits)

lemma summarizeRoutes_set:
  "set (summarizeRoutes i rs out) =
     set out \<union> {routeSummary (rs ! k) m (i + k) | k m. k < length rs \<and> route_metrics (rs ! k) = Some m}"
proof (induction rs arbitrary: i out)
  case Nil
  show ?case by simp
next
  case (Cons r rs)
  have split: "{routeSummary ((r # rs) ! k) m (i + k) | k m. k < length (r # rs) \<and> route_metrics ((r # rs) ! k) = Some m}
      = {routeSummary r m i | m. route_metrics r = Some m}
        \<union> {routeSummary (rs ! k) m (Suc i + k) | k m. k < length rs \<and> route_metrics (rs ! k) = Some m}"
    (is "?A = ?B \<union> ?C")
  proof (intro set_eqI iffI)
    fix e assume "e \<in> ?A"
    then obtain k m where k: "k < length (r # rs)" "route_metrics ((r # rs) ! k) = Some m"
      "e = routeSummary ((r # rs) ! k) m (i + k)" by blast
    show "e \<in> ?B \<union> ?C"
    proof (cases k)
      case 0
      with k show ?thesis by simp
    next
      case (Suc k')
      with k have "k' < length rs" "route_metrics (rs ! k') = Some m"
        "e = routeSummary (rs ! k') m (Suc i + k')" by simp_all
      then show ?thesis by blast
    qed
  next
    fix e assume "e \<in> ?B \<union> ?C"
    then show "e \<in> ?A"
    proof
      assume "e \<in> ?B"
      then obtain m where "route_metrics r = Some m" "e = routeSummary r m i" by blast
      then have "0 < length (r # rs) \<and> route_metrics ((r # rs) ! 0) = Some m
        \<and> e = routeSummary ((r # rs) ! 0) m (i + 0)" by simp
      then show ?thesis by blast
    next
      assume "e \<in> ?C"
      then obtain k m where "k < length rs" "route_metrics (rs ! k) = Some m"
        "e = routeSummary (rs ! k) m (Suc i + k)" by blast
      then have "Suc k < length (r # rs) \<and> route_metrics ((r # rs) ! Suc k) = Some m
        \<and> e = routeSummary ((r # rs) ! Suc k) m (i + Suc k)" by simp
      then show ?thesis by blast
    qed
  qed
  show ?case
    unfolding split by (cases "route_metrics r") (auto simp: Cons.IH)
qed

text \<open>
  Claim C6. The summary's \<open>total_routes\<close> is the length of the routes array, whatever
  the routes are. The per-route list has one entry for each route that has metrics, in
  route order and numbered from 1 by the route's position, and none for a route without
  metrics: the two counts differ by the number of routes without metrics. In every
  entry \<open>total_stops\<close> and \<open>total_dropoffs\<close> are both the number of non-pickup visits
  of the route.
\<close>

theorem buildOptimizationSummary_routes:
  "total_routes (buildOptimizationSummary resp) = length (routes resp)
   \<and> length (summary_routes (buildOptimizationSummary resp))
       = length (filter (\<lambda>r. route_metrics r \<noteq> None) (routes resp))
   \<and> summary_routes (buildOptimizationSummary resp)
       = List.map_filter (\<lambda>(j, r). map_option (\<lambda>m. routeSummary r m j) (route_metrics r))
           (zip [0..<length (routes resp)] (routes resp))
   \<and> (\<forall>k m. k < length (routes resp) \<and> route_metrics (routes resp ! k) = Some m \<longrightarrow>
          routeSummary (routes resp ! k) m k \<in> set (summary_routes (buildOptimizationSummary resp)))
   \<and> (\<forall>e \<in> set (summary_routes (buildOptimizationSummary resp)).
          \<exists>k m. k < length (routes resp) \<and> route_metrics (routes resp ! k) = Some m
            \<and> e = routeSummary (routes resp ! k) m k
            \<and> route_number e = k + 1
            \<and> total_stops e = length (filter (\<lambda>v. \<not> isPickup v) (visits (routes resp ! k)))
            \<and> total_dropoffs e = length (filter (\<lambda>v. \<not> isPickup v) (visits (routes resp ! k))))"
proof -
  let ?s = "summary_routes (buildOptimizationSummary resp)"
  have s: "set ?s = {routeSummary (routes resp ! k) m k | k m.
      k < length (routes resp) \<and> route_metrics (routes resp ! k) = Some m}"
    by (simp add: buildOptimizationSummary_def summarizeRoutes_set)
  have 1: "total_routes (buildOptimizationSummary resp) = length (routes resp)"
    by (simp add: buildOptimizationSummary_def)
  have 2: "length ?s = length (filter (\<lambda>r. route_metrics r \<noteq> None) (routes resp))"
    by (simp add: buildOptimizationSummary_def summarizeRoutes_length)
  have 3: "?s = List.map_filter (\<lambda>(j, r). map_option (\<lambda>m. routeSummary r m j) (route_metrics r))
           (zip [0..<length (routes resp)] (routes resp))"
    by (simp add: buildOptimizationSummary_def summarizeRoutes_eq)
  have 4: "\<forall>k m. k < length (routes resp) \<and> route_metrics (routes resp ! k) = Some m \<longrightarrow>
          routeSummary (routes resp ! k) m k \<in> set ?s"
    unfolding s by blast
  have 5: "\<forall>e \<in> set ?s.
          \<exists>k m. k < length (routes resp) \<and> route_metrics (routes resp ! k) = Some m
            \<and> e = routeSummary (routes resp ! k) m k
            \<and> route_number e = k + 1
            \<and> total_stops e = length (filter (\<lambda>v. \<not> isPickup v) (visits (routes resp ! k)))
            \<and> total_dropoffs e = length (filter (\<lambda>v. \<not> isPickup v) (visits (routes resp ! k)))"
  proof
    fix e assume "e \<in> set ?s"
    then obtain k m where k: "k < length (routes resp)" "route_metrics (routes resp ! k) = Some m"
      "e = routeSummary (routes resp ! k) m k"
      unfolding s by blast
    from k(3) have "route_number e = k + 1"
      "total_stops e = length (filter (\<lambda>v. \<not> isPickup v) (visits (routes resp ! k)))"
      "total_dropoffs e = length (filter (\<lambda>v. \<not> isPickup v) (visits (routes resp ! k)))"
      by (simp_all add: routeSummary_def)
    with k show "\<exists>k m. k < length (routes resp) \<and> route_metrics (routes resp ! k) = Some m
            \<and> e = routeSummary (routes resp ! k) m k
            \<and> route_number e = k + 1
            \<and> total_stops e = length (filter (\<lambda>v. \<not> isPickup v) (visits (routes resp ! k)))
            \<and> total_dropoffs e = length (filter (\<lambda>v. \<not> isPickup v) (visits (routes resp ! k)))"
      by blast
  qed
  from 1 2 3 4 5 show ?thesis by blast
qed

text \<open>Claim C6 on two routes of which the first has no metrics: \<open>total_routes\<close> is 2
  and the per-route list has the one entry of route 2.\<close>

theorem buildOptimizationSummary_routes_witness:
  "total_routes (buildOptimizationSummary (exampleResponse
      [exampleRoute ''V001'' [exampleVisit ''12345'' True 0 2, exampleVisit ''12345'' False 600 (- 2)] [] None,
       exampleRoute ''V002'' [exampleVisit ''12346'' True 0 3, exampleVisit ''12346'' False 900 (- 3)] []
         (Some (exampleMetrics 900 180 5000))])) = 2
   \<and> length (summary_routes (buildOptimizationSummary (exampleResponse
      [exampleRoute ''V001'' [exampleVisit ''12345'' True 0 2, exampleVisit ''12345'' False 600 (- 2)] [] None,
       exampleRoute ''V002'' [exampleVisit ''12346'' True 0 3, exampleVisit ''12346'' False 900 (- 3)] []
         (Some (exampleMetrics 900 180 5000))]))) = 1
   \<and> map route_number (summary_routes (buildOptimizationSummary (exampleResponse
      [exampleRoute ''V001'' [exampleVisit ''12345'' True 0 2, exampleVisit ''12345'' False 600 (- 2)] [] None,
       exampleRoute ''V002'' [exampleVisit ''12346'' True 0 3, exampleVisit ''12346'' False 900 (- 3)] []
         (Some (exampleMetrics 900 180 5000))]))) = [2]
   \<and> map total_stops (summary_routes (buildOptimizationSummary (exampleResponse
      [exampleRoute ''V001'' [exampleVisit ''12345'' True 0 2, exampleVisit ''12345'' False 600 (- 2)] [] None,
       exampleRoute ''V002'' [exampleVisit ''12346'' True 0 3, exampleVisit ''12346'' False 900 (- 3)] []
         (Some (exampleMetrics 900 180 5000))]))) = [1]
   \<and> map total_dropoffs (summary_routes (buildOptimizationSummary (exampleResponse
      [exampleRoute ''V001'' [exampleVisit ''12345'' True 0 2, exampleVisit ''12345'' False 600 (- 2)] [] None,
       exampleRoute ''V002'' [exampleVisit ''12346'' True 0 3, exampleVisit ''12346'' False 900 (- 3)] []
         (Some (exampleMetrics 900 180 5000))]))) = [1]"
proof -
  let ?r1 = "exampleRoute ''V001'' [exampleVisit ''12345'' True 0 2, exampleVisit ''12345'' False 600 (- 2)] [] None"
  let ?r2 = "exampleRoute ''V002'' [exampleVisit ''12346'' True 0 3, exampleVisit ''12346'' False 900 (- 3)] []
         (Some (exampleMetrics 900 180 5000))"
  let ?resp = "exampleResponse [?r1, ?r2]"
  let ?s = "buildOptimizationSummary ?resp"
  note t = buildOptimizationSummary_routes [of ?resp]
  have rs: "routes ?resp = [?r1, ?r2]" by (simp add: exampleResponse_def)
  have m: "route_metrics ?r1 = None" "route_metrics ?r2 = Some (exampleMetrics 900 180 5000)"
    by (simp_all add: exampleRoute_def)
  from t have "total_routes ?s = length (routes ?resp)" by blast
  then have a: "total_routes ?s = 2" by (simp add: rs)
  from t have "length (summary_routes ?s) = length (filter (\<lambda>r. route_metrics r \<noteq> None) (routes ?resp))"
    by blast
  then have b: "length (summary_routes ?s) = 1" by (simp add: rs m)
  from t have "summary_routes ?s
       = List.map_filter (\<lambda>(j, r). map_option (\<lambda>m. routeSummary r m j) (route_metrics r))
           (zip [0..<length (routes ?resp)] (routes ?resp))" by blast
  then have c: "summary_routes ?s = [routeSummary ?r2 (exampleMetrics 900 180 5000) 1]"
    by (simp add: rs m upt_rec)
  have d: "map route_number (summary_routes ?s) = [2]"
    "map total_stops (summary_routes ?s) = [1]"
    "map total_dropoffs (summary_routes ?s) = [1]"
    unfolding c by (simp_all add: routeSummary_def exampleRoute_def exampleVisit_def)
  from a b d show ?thesis by blast
qed

section \<open>Flat legacy response view\<close>

lemma mapWithIndex_Inr:
  "mapWithIndex f i xs = Inr ys \<Longrightarrow>
     length ys = length xs \<and> (\<forall>k < length xs. f (xs ! k) (i + k) = Inr (ys ! k))"
proof (induction xs arbitrary: i ys)
  case Nil
  then show ?case by simp
next
  case (Cons x xs)
  from Cons.prems obtain y ys' where y: "f x i = Inr y" and r: "mapWithIndex f (Suc i) xs = Inr ys'"
    and ys: "ys = y # ys'"
    by (auto split: sum.splits)
  from Cons.IH [OF r] have l: "length ys' = length xs"
    and a: "\<And>k. k < length xs \<Longrightarrow> f (xs ! k) (Suc i + k) = Inr (ys' ! k)" by auto
  show ?case
  proof (intro conjI allI impI)
    show "length ys = length (x # xs)" using l ys by simp
    fix k assume "k < length (x # xs)"
    then show "f ((x # xs) ! k) (i + k) = Inr (ys ! k)"
      using y a ys by (cases k) auto
  qed
qed

lemma mapWithIndex_total:
  "(\<And>k. k < length xs \<Longrightarrow> \<exists>y. f (xs ! k) (i + k) = Inr y) \<Longrightarrow> \<exists>ys. mapWithIndex f i xs = Inr ys"
proof (induction xs arbitrary: i)
  case Nil
  show ?case by simp
next
  case (Cons x xs)
  from Cons.prems [of 0] obtain y where y: "f x i = Inr y" by auto
  have "\<exists>ys. mapWithIndex f (Suc i) xs = Inr ys"
  proof (rule Cons.IH)
    fix k assume "k < length xs"
    then show "\<exists>y. f (xs ! k) (Suc i + k) = Inr y"
      using Cons.prems [of "Suc k"] by simp
  qed
  with y show ?case by auto
qed

lemma forEachRoute_Inr:
  "forEachRoute bookings i rs results = Inr res \<Longrightarrow>
     status res = status results
     \<and> (rs = [] \<longrightarrow> responde res = responde results)
     \<and> (rs \<noteq> [] \<longrightarrow> (\<exists>records. routeRecords bookings (last rs) (i + length rs - 1) = Inr records
            \<and> responde res = Some records))
     \<and> (\<forall>k < length rs. \<exists>records. routeRecords bookings (rs ! k) (i + k) = Inr records)"
proof (induction rs arbitrary: i results)
  case Nil
  then show ?case by simp
next
  case (Cons r rs)
  from Cons.prems obtain records where rr: "routeRecords bookings r i = Inr records"
    and rest: "forEachRoute bookings (Suc i) rs (results\<lparr>responde := Some records\<rparr>) = Inr res"
    by (auto split: sum.splits)
  note ih = Cons.IH [OF rest]
  show ?case
  proof (intro conjI impI allI)
    show "status res = status results" using ih by simp
    show "responde res = responde results" if "r # rs = []" using that by simp
    show "\<exists>records. routeRecords bookings (last (r # rs)) (i + length (r # rs) - 1) = Inr records
            \<and> responde res = Some records"
    proof (cases "rs = []")
      case True
      with ih rr show ?thesis by simp
    next
      case False
      with ih show ?thesis by simp
    qed
    fix k assume "k < length (r # rs)"
    then show "\<exists>records. routeRecords bookings ((r # rs) ! k) (i + k) = Inr records"
      using rr ih by (cases k) auto
  qed
qed

lemma forEachRoute_total:
  "(\<And>k. k < length rs \<Longrightarrow> \<exists>records. routeRecords bookings (rs ! k) (i + k) = Inr records)
   \<Longrightarrow> \<exists>res. forEachRoute bookings i rs results = Inr res"
proof (induction rs arbitrary: i results)
  case Nil
  show ?case by simp
next
  case (Cons r rs)
  from Cons.prems [of 0] obtain records where rr: "routeRecords bookings r i = Inr records" by auto
  have "\<exists>res. forEachRoute bookings (Suc i) rs (results\<lparr>responde := Some records\<rparr>) = Inr res"
  proof (rule Cons.IH)
    fix k assume "k < length rs"
    then show "\<exists>records. routeRecords bookings (rs ! k) (Suc i + k) = Inr records"
      using Cons.prems [of "Suc k"] by simp
  qed
  with rr show ?case by simp
qed

lemma routeRecords_Inr:
  assumes "routeRecords bookings r i = Inr records"
  shows "\<exists>start details. records = start # details
     \<and> startElement bookings (filter (\<lambda>v. \<not> isPickup v) (visits r)) i = Inr start
     \<and> mapWithIndex (legacyVisit bookings
           (getCumulativeDistances (filter (\<lambda>v. \<not> isPickup v) (visits r)) (transitions r)) i) 0
           (filter (\<lambda>v. \<not> isPickup v) (visits r)) = Inr details"
  using assms by (auto simp: routeRecords_def Let_def split: sum.splits)

lemma startElement_Inr:
  assumes "startElement bookings dv i = Inr start"
  shows "num_ruta start = i + 1 \<and> num_viaje start = i + 1 \<and> posicion_en_ruta start = - 1
     \<and> cod_cliente start = Num 0 \<and> distancia start = 0 \<and> tiempo_viaje start = 0
     \<and> (dv = [] \<longrightarrow> lat start = Some 0 \<and> lng start = Some 0)
     \<and> (dv \<noteq> [] \<longrightarrow> (\<exists>ref. getReferenceBooking bookings (hd dv) = Inr ref
           \<and> lat start = latitude (ref_booking_origin_coordinates ref)
           \<and> lng start = longitude (ref_booking_origin_coordinates ref)))"
  using assms by (cases dv) (auto simp: startElement_def Let_def split: sum.splits)

lemma legacyVisit_Inr:
  assumes "legacyVisit bookings cd i v k = Inr rec"
  shows "num_ruta rec = i + 1 \<and> num_viaje rec = i + 1 \<and> posicion_en_ruta rec = int k
     \<and> cod_cliente rec = getBookingIDFromShipment (Some v)
     \<and> distancia rec = distanceOrZero (cd (getBookingIDFromShipment (Some v)))
     \<and> tiempo_viaje rec = getVisitTravelTime (Some v)
     \<and> (\<exists>ref. getReferenceBooking bookings v = Inr ref
           \<and> lat rec = latitude (ref_booking_destination_coordinates ref)
           \<and> lng rec = longitude (ref_booking_destination_coordinates ref))"
  using assms by (auto simp: legacyVisit_def Let_def split: sum.splits)

lemma routeRecords_total:
  assumes "\<And>v. v \<in> set (visits r) \<Longrightarrow> \<not> isPickup v \<Longrightarrow> \<exists>ref. getReferenceBooking bookings v = Inr ref"
  shows "\<exists>records. routeRecords bookings r i = Inr records"
proof -
  let ?dv = "filter (\<lambda>v. \<not> isPickup v) (visits r)"
  let ?cd = "getCumulativeDistances ?dv (transitions r)"
  have res: "\<exists>ref. getReferenceBooking bookings v = Inr ref" if "v \<in> set ?dv" for v
    using that assms by simp
  have "\<exists>start. startElement bookings ?dv i = Inr start"
  proof (cases ?dv)
    case Nil
    then show ?thesis by (simp add: startElement_def)
  next
    case (Cons v vs)
    then have "v \<in> set ?dv" by simp
    from res [OF this] Cons show ?thesis by (auto simp: startElement_def)
  qed
  then obtain start where s: "startElement bookings ?dv i = Inr start" ..
  have "\<exists>ys. mapWithIndex (legacyVisit bookings ?cd i) 0 ?dv = Inr ys"
  proof (rule mapWithIndex_total)
    fix k assume "k < length ?dv"
    then have "?dv ! k \<in> set ?dv" by (rule nth_mem)
    from res [OF this] show "\<exists>y. legacyVisit bookings ?cd i (?dv ! k) (0 + k) = Inr y"
      by (auto simp: legacyVisit_def Let_def)
  qed
  then obtain ys where "mapWithIndex (legacyVisit bookings ?cd i) 0 ?dv = Inr ys" ..
  with s show ?thesis by (simp add: routeRecords_def Let_def)
qed

lemma routeRecords_shape:
  assumes "routeRecords bookings r i = Inr records"
  shows "\<exists>start details. records = start # details
     \<and> posicion_en_ruta start = - 1 \<and> num_ruta start = i + 1
     \<and> (filter (\<lambda>v. \<not> isPickup v) (visits r) = [] \<longrightarrow> lat start = Some 0 \<and> lng start = Some 0)
     \<and> (filter (\<lambda>v. \<not> isPickup v) (visits r) \<noteq> [] \<longrightarrow>
          (\<exists>ref. getReferenceBooking bookings (hd (filter (\<lambda>v. \<not> isPickup v) (visits r))) = Inr ref
             \<and> lat start = latitude (ref_booking_origin_coordinates ref)
             \<and> lng start = longitude (ref_booking_origin_coordinates ref)))
     \<and> length details = length (filter (\<lambda>v. \<not> isPickup v) (visits r))
     \<and> (\<forall>k < length (filter (\<lambda>v. \<not> isPickup v) (visits r)).
          posicion_en_ruta (details ! k) = int k \<and> num_ruta (details ! k) = i + 1
          \<and> cod_cliente (details ! k)
              = getBookingIDFromShipment (Some (filter (\<lambda>v. \<not> isPickup v) (visits r) ! k))
          \<and> distancia (details ! k)
              = distanceOrZero (getCumulativeDistances (filter (\<lambda>v. \<not> isPickup v) (visits r)) (transitions r)
                  (getBookingIDFromShipment (Some (filter (\<lambda>v. \<not> isPickup v) (visits r) ! k))))
          \<and> tiempo_viaje (details ! k)
              = getVisitTravelTime (Some (filter (\<lambda>v. \<not> isPickup v) (visits r) ! k))
          \<and> (\<exists>ref. getReferenceBooking bookings (filter (\<lambda>v. \<not> isPickup v) (visits r) ! k) = Inr ref
                \<and> lat (details ! k) = latitude (ref_booking_destination_coordinates ref)
                \<and> lng (details ! k) = longitude (ref_booking_destination_coordinates ref)))"
proof -
  let ?dv = "filter (\<lambda>v. \<not> isPickup v) (visits r)"
  let ?cd = "getCumulativeDistances ?dv (transitions r)"
  from routeRecords_Inr [OF assms] obtain start details where
    r: "records = start # details" and s: "startElement bookings ?dv i = Inr start"
    and d: "mapWithIndex (legacyVisit bookings ?cd i) 0 ?dv = Inr details" by blast
  from mapWithIndex_Inr [OF d] have l: "length details = length ?dv"
    and e: "\<And>k. k < length ?dv \<Longrightarrow> legacyVisit bookings ?cd i (?dv ! k) k = Inr (details ! k)"
    by auto
  note st = startElement_Inr [OF s]
  have per: "posicion_en_ruta (details ! k) = int k \<and> num_ruta (details ! k) = i + 1
          \<and> cod_cliente (details ! k) = getBookingIDFromShipment (Some (?dv ! k))
          \<and> distancia (details ! k) = distanceOrZero (?cd (getBookingIDFromShipment (Some (?dv ! k))))
          \<and> tiempo_viaje (details ! k) = getVisitTravelTime (Some (?dv ! k))
          \<and> (\<exists>ref. getReferenceBooking bookings (?dv ! k) = Inr ref
                \<and> lat (details ! k) = latitude (ref_booking_destination_coordinates ref)
                \<and> lng (details ! k) = longitude (ref_booking_destination_coordinates ref))"
    if "k < length ?dv" for k
    using legacyVisit_Inr [OF e [OF that]] by blast
  from r st l per show ?thesis by blast
qed

text \<open>
  Claim C5. When the flat legacy view returns, its status is \<open>Ok\<close> and, for a non-empty
  list of routes, its record list is the record list of the last route alone: each
  route's list is stored under the same key and replaces the one before. The record
  list of a route (position \<open>i\<close>, numbered \<open>i + 1\<close>) is one start record with position
  marker \<open>-1\<close>, whose coordinates are the origin of the first drop-off's booking when
  the route has a drop-off and the placeholders 0 otherwise, followed by one record per
  drop-off visit at positions 0, 1, ... with the visit's booking id, the destination of its
  booking, its distance and its travel time. The view returns whenever every drop-off
  visit of every route resolves to a booking.
\<close>

theorem createVisitsAPIResponse_last_route:
  "(createVisitsAPIResponse bookings rs = Inr res \<longrightarrow>
      status res = ''Ok''
      \<and> (rs = [] \<longrightarrow> responde res = None)
      \<and> (rs \<noteq> [] \<longrightarrow>
           (\<exists>records. routeRecords bookings (last rs) (length rs - 1) = Inr records
              \<and> responde res = Some records)))
   \<and> (routeRecords bookings r i = Inr records \<longrightarrow>
        (\<exists>start details. records = start # details
           \<and> posicion_en_ruta start = - 1 \<and> num_ruta start = i + 1
           \<and> (filter (\<lambda>v. \<not> isPickup v) (visits r) = [] \<longrightarrow> lat start = Some 0 \<and> lng start = Some 0)
           \<and> (filter (\<lambda>v. \<not> isPickup v) (visits r) \<noteq> [] \<longrightarrow>
                (\<exists>ref. getReferenceBooking bookings (hd (filter (\<lambda>v. \<not> isPickup v) (visits r))) = Inr ref
                   \<and> lat start = latitude (ref_booking_origin_coordinates ref)
                   \<and> lng start = longitude (ref_booking_origin_coordinates ref)))
           \<and> length details = length (filter (\<lambda>v. \<not> isPickup v) (visits r))
           \<and> (\<forall>k < length (filter (\<lambda>v. \<not> isPickup v) (visits r)).
                posicion_en_ruta (details ! k) = int k \<and> num_ruta (details ! k) = i + 1
                \<and> cod_cliente (details ! k)
                    = getBookingIDFromShipment (Some (filter (\<lambda>v. \<not> isPickup v) (visits r) ! k))
                \<and> distancia (details ! k)
                    = distanceOrZero (getCumulativeDistances (filter (\<lambda>v. \<not> isPickup v) (visits r)) (transitions r)
                        (getBookingIDFromShipment (Some (filter (\<lambda>v. \<not> isPickup v) (visits r) ! k))))
                \<and> tiempo_viaje (details ! k)
                    = getVisitTravelTime (Some (filter (\<lambda>v. \<not> isPickup v) (visits r) ! k))
                \<and> (\<exists>ref. getReferenceBooking bookings (filter (\<lambda>v. \<not> isPickup v) (visits r) ! k) = Inr ref
                      \<and> lat (details ! k) = latitude (ref_booking_destination_coordinates ref)
                      \<and> lng (details ! k) = longitude (ref_booking_destination_coordinates ref)))))
   \<and> ((\<forall>r \<in> set rs. \<forall>v \<in> set (visits r). \<not> isPickup v \<longrightarrow>
          (\<exists>ref. getReferenceBooking bookings v = Inr ref))
        \<longrightarrow> (\<exists>res. createVisitsAPIResponse bookings rs = Inr res))"
proof (intro conjI impI)
  assume a: "createVisitsAPIResponse bookings rs = Inr res"
  note f = forEachRoute_Inr [OF a [unfolded createVisitsAPIResponse_def]]
  from f show "status res = ''Ok''" by simp
  from f show "responde res = None" if "rs = []" using that by simp
  from f show "\<exists>records. routeRecords bookings (last rs) (length rs - 1) = Inr records
              \<and> responde res = Some records" if "rs \<noteq> []" using that by simp
next
  assume "routeRecords bookings r i = Inr records"
  then show "\<exists>start details. records = start # details
           \<and> posicion_en_ruta start = - 1 \<and> num_ruta start = i + 1
           \<and> (filter (\<lambda>v. \<not> isPickup v) (visits r) = [] \<longrightarrow> lat start = Some 0 \<and> lng start = Some 0)
           \<and> (filter (\<lambda>v. \<not> isPickup v) (visits r) \<noteq> [] \<longrightarrow>
                (\<exists>ref. getReferenceBooking bookings (hd (filter (\<lambda>v. \<not> isPickup v) (visits r))) = Inr ref
                   \<and> lat start = latitude (ref_booking_origin_coordinates ref)
                   \<and> lng start = longitude (ref_booking_origin_coordinates ref)))
           \<and> length details = length (filter (\<lambda>v. \<not> isPickup v) (visits r))
           \<and> (\<forall>k < length (filter (\<lambda>v. \<not> isPickup v) (visits r)).
                posicion_en_ruta (details ! k) = int k \<and> num_ruta (details ! k) = i + 1
                \<and> cod_cliente (details ! k)
                    = getBookingIDFromShipment (Some (filter (\<lambda>v. \<not> isPickup v) (visits r) ! k))
                \<and> distancia (details ! k)
                    = distanceOrZero (getCumulativeDistances (filter (\<lambda>v. \<not> isPickup v) (visits r)) (transitions r)
                        (getBookingIDFromShipment (Some (filter (\<lambda>v. \<not> isPickup v) (visits r) ! k))))
                \<and> tiempo_viaje (details ! k)
                    = getVisitTravelTime (Some (filter (\<lambda>v. \<not> isPickup v) (visits r) ! k))
                \<and> (\<exists>ref. getReferenceBooking bookings (filter (\<lambda>v. \<not> isPickup v) (visits r) ! k) = Inr ref
                      \<and> lat (details ! k) = latitude (ref_booking_destination_coordinates ref)
                      \<and> lng (details ! k) = longitude (ref_booking_destination_coordinates ref)))"
    by (rule routeRecords_shape)
next
  assume all: "\<forall>r \<in> set rs. \<forall>v \<in> set (visits r). \<not> isPickup v \<longrightarrow>
          (\<exists>ref. getReferenceBooking bookings v = Inr ref)"
  show "\<exists>res. createVisitsAPIResponse bookings rs = Inr res"
    unfolding createVisitsAPIResponse_def
  proof (rule forEachRoute_total)
    fix k assume "k < length rs"
    then have "rs ! k \<in> set rs" by (rule nth_mem)
    with all show "\<exists>records. routeRecords bookings (rs ! k) (0 + k) = Inr records"
      by (intro routeRecords_total) blast
  qed
qed

lemma Math_round_div60: "Math_round (real_of_int s / 60) = (s + 30) div 60"
proof -
  have "real_of_int s / 60 + 1 / 2 = real_of_int (s + 30) / real_of_int 60" by simp
  then show ?thesis
    unfolding Math_round_def by (simp only: floor_divide_of_int_eq)
qed

lemma getVisitTravelTime_Some:
  "getVisitTravelTime (Some v) = (visit_startTime_seconds v + 30) div 60"
  by (simp only: getVisitTravelTime_def option.case Math_round_div60)

lemmas view_eval =
  routeRecords_def startElement_def legacyVisit_def getReferenceBooking_def
  getCumulativeDistances_def visitStep_def matchingTransitions_def distanceOrZero_def
  getVisitTravelTime_Some exampleLocation_def exampleBooking_def exampleTransition_def
  exampleRoute_def parse_eval Let_def

lemma routeRecords_example: "routeRecords
  [exampleBooking ''Booking 1'' (exampleLocation 1 2) (exampleLocation 3 4) 1,
   exampleBooking ''Booking 2'' (exampleLocation 5 6) (exampleLocation 7 8) 2]
   (exampleRoute ''V002'' [exampleVisit ''Booking 2'' True 0 2, exampleVisit ''Booking 2'' False 900 (- 2)]
     [exampleTransition 0 0 0, exampleTransition 0 900 7000] None) 1
  = Inr [\<lparr>num_ruta = 2, num_viaje = 2, posicion_en_ruta = - 1, cod_cliente = Num 0,
          lat = Some 5, lng = Some 6, distancia = 0, tiempo_viaje = 0\<rparr>,
         \<lparr>num_ruta = 2, num_viaje = 2, posicion_en_ruta = 0, cod_cliente = Num 2,
          lat = Some 7, lng = Some 8, distancia = 7000, tiempo_viaje = 15\<rparr>]"
  by (simp add: view_eval)


text \<open>Claim C5 on two routes with one drop-off each: the response holds the start
  record and the drop-off record of route 2 only.\<close>

theorem createVisitsAPIResponse_last_route_witness:
  "createVisitsAPIResponse
     [exampleBooking ''Booking 1'' (exampleLocation 1 2) (exampleLocation 3 4) 1,
      exampleBooking ''Booking 2'' (exampleLocation 5 6) (exampleLocation 7 8) 2]
     [exampleRoute ''V001'' [exampleVisit ''Booking 1'' True 0 1, exampleVisit ''Booking 1'' False 600 (- 1)]
        [exampleTransition 0 0 0, exampleTransition 0 600 4000] None,
      exampleRoute ''V002'' [exampleVisit ''Booking 2'' True 0 2, exampleVisit ''Booking 2'' False 900 (- 2)]
        [exampleTransition 0 0 0, exampleTransition 0 900 7000] None]
   = Inr \<lparr>status = ''Ok'',
          responde = Some
            [\<lparr>num_ruta = 2, num_viaje = 2, posicion_en_ruta = - 1, cod_cliente = Num 0,
              lat = Some 5, lng = Some 6, distancia = 0, tiempo_viaje = 0\<rparr>,
             \<lparr>num_ruta = 2, num_viaje = 2, posicion_en_ruta = 0, cod_cliente = Num 2,
              lat = Some 7, lng = Some 8, distancia = 7000, tiempo_viaje = 15\<rparr>]\<rparr>"
proof -
  let ?bs = "[exampleBooking ''Booking 1'' (exampleLocation 1 2) (exampleLocation 3 4) 1,
      exampleBooking ''Booking 2'' (exampleLocation 5 6) (exampleLocation 7 8) 2]"
  let ?r1 = "exampleRoute ''V001'' [exampleVisit ''Booking 1'' True 0 1, exampleVisit ''Booking 1'' False 600 (- 1)]
        [exampleTransition 0 0 0, exampleTransition 0 600 4000] None"
  let ?r2 = "exampleRoute ''V002'' [exampleVisit ''Booking 2'' True 0 2, exampleVisit ''Booking 2'' False 900 (- 2)]
        [exampleTransition 0 0 0, exampleTransition 0 900 7000] None"
  let ?records = "[\<lparr>num_ruta = 2, num_viaje = 2, posicion_en_ruta = - 1, cod_cliente = Num 0,
              lat = Some 5, lng = Some 6, distancia = 0, tiempo_viaje = 0\<rparr>,
             \<lparr>num_ruta = 2, num_viaje = 2, posicion_en_ruta = 0, cod_cliente = Num 2,
              lat = Some 7, lng = Some 8, distancia = 7000, tiempo_viaje = 15\<rparr>]"
  have resolves: "\<forall>r \<in> set [?r1, ?r2]. \<forall>v \<in> set (visits r). \<not> isPickup v \<longrightarrow>
          (\<exists>ref. getReferenceBooking ?bs v = Inr ref)"
    by (simp add: getReferenceBooking_def example_defs exampleRoute_def)
  have last_route: "routeRecords ?bs (last [?r1, ?r2]) (length [?r1, ?r2] - 1) = Inr ?records"
    using routeRecords_example by simp
  from resolves createVisitsAPIResponse_last_route [of ?bs "[?r1, ?r2]"]
  obtain res where res: "createVisitsAPIResponse ?bs [?r1, ?r2] = Inr res" by blast
  from res createVisitsAPIResponse_last_route [of ?bs "[?r1, ?r2]" res]
  have "status res = ''Ok''"
    and "\<exists>records. routeRecords ?bs (last [?r1, ?r2]) (length [?r1, ?r2] - 1) = Inr records
              \<and> responde res = Some records"
    by blast+
  with last_route have "status res = ''Ok''" "responde res = Some ?records" by auto
  then have "res = \<lparr>status = ''Ok'', responde = Some ?records\<rparr>" by simp
  with res show ?thesis by simp
qed

text \<open>
  Claim C10. On an empty list of routes the flat legacy view returns an object with the
  status \<open>Ok\<close> and no record list at all: the field \<open>responde\<close> is absent, not empty.
\<close>

theorem createVisitsAPIResponse_no_routes:
  "createVisitsAPIResponse bookings [] = Inr \<lparr>status = ''Ok'', responde = None\<rparr>"
  by (simp add: createVisitsAPIResponse_def)


section \<open>Passengers along a route\<close>

lemma foldl_add_sum_list: "foldl (\<lambda>sum count. sum + count) a xs = a + sum_list (xs :: int list)"
  by (induction xs arbitrary: a) simp_all

lemma getPassengersAlongRoute_Some:
  "getPassengersAlongRoute (Some r)
     = sum_list (filter (\<lambda>count. count > 0) (map visit_passengers_amount (visits r)))"
  by (simp add: getPassengersAlongRoute_def foldl_add_sum_list)

lemma loadWithin_head: "loadWithin cap l zs \<Longrightarrow> l \<le> cap"
  by (cases zs) simp_all

lemma loadWithin_prefix:
  "loadWithin cap l (ys @ zs) \<Longrightarrow> l + sum_list ys \<le> cap"
proof (induction ys arbitrary: l)
  case Nil
  then show ?case by (simp add: loadWithin_head)
next
  case (Cons a ys)
  from Cons.prems have "loadWithin cap (l + a) (ys @ zs)" by simp
  from Cons.IH [OF this] show ?case by (simp add: add.assoc)
qed

lemma sum_list_positive_part:
  "list_all (\<lambda>a. 0 \<le> a) ys \<Longrightarrow> sum_list (filter (\<lambda>a. a > 0) ys) = sum_list (ys :: int list)"
  by (induction ys) auto

lemma filter_positive_empty:
  "list_all (\<lambda>a. a \<le> 0) zs \<Longrightarrow> filter (\<lambda>a. a > 0) (zs :: int list) = []"
  by (induction zs) auto

lemma boarding_total_bounded:
  fixes xs :: "int list"
  assumes w: "loadWithin cap 0 xs"
    and b: "list_all (\<lambda>a. a \<le> 0) (dropWhile (\<lambda>a. 0 \<le> a) xs)"
  shows "sum_list (filter (\<lambda>a. a > 0) xs) \<le> cap"
proof -
  let ?ys = "takeWhile (\<lambda>a. 0 \<le> a) xs" and ?zs = "dropWhile (\<lambda>a. 0 \<le> a) xs"
  have xs: "xs = ?ys @ ?zs" by simp
  have nn: "list_all (\<lambda>a. 0 \<le> a) ?ys"
    by (simp add: list_all_iff) (meson set_takeWhileD)
  have "filter (\<lambda>a. a > 0) xs = filter (\<lambda>a. a > 0) ?ys @ filter (\<lambda>a. a > 0) ?zs"
    by (subst xs) (simp only: filter_append)
  then have "sum_list (filter (\<lambda>a. a > 0) xs) = sum_list ?ys"
    using sum_list_positive_part [OF nn] filter_positive_empty [OF b] by simp
  moreover have "0 + sum_list ?ys \<le> cap"
    using w by (intro loadWithin_prefix [of cap 0 ?ys ?zs]) simp
  ultimately show ?thesis by simp
qed

text \<open>
  Claim C8, as stated, bounds the total of the positive passenger amounts by the
  capacity constant of the summary for every route whose running load stays between 0
  and the capacity of the vehicle. A vehicle that takes 4 passengers, sets them down,
  and takes 4 others keeps its load within the capacity 7, and the summary reports 8
  passengers. And the capacity of a vehicle comes from the request, not from the
  constant: a vehicle of capacity 10 that takes 10 passengers and sets them down keeps
  its load within its capacity, and the summary reports 10 passengers against the
  constant 7.
\<close>

theorem getPassengersAlongRoute_exceeds_capacity:
  "wellFormedLoad VEHICLE_CAPACITY
     (exampleRoute ''V001''
        [exampleVisit ''1'' True 0 4, exampleVisit ''1'' False 600 (- 4),
         exampleVisit ''2'' True 900 4, exampleVisit ''2'' False 1500 (- 4)] [] None)
   \<and> total_passengers (routeSummary
     (exampleRoute ''V001''
        [exampleVisit ''1'' True 0 4, exampleVisit ''1'' False 600 (- 4),
         exampleVisit ''2'' True 900 4, exampleVisit ''2'' False 1500 (- 4)] [] None)
     (exampleMetrics 1500 360 9000) 0) = 8
   \<and> vehicle_capacity (routeSummary
     (exampleRoute ''V001''
        [exampleVisit ''1'' True 0 4, exampleVisit ''1'' False 600 (- 4),
         exampleVisit ''2'' True 900 4, exampleVisit ''2'' False 1500 (- 4)] [] None)
     (exampleMetrics 1500 360 9000) 0) = 7
   \<and> wellFormedLoad 10
     (exampleRoute ''V002''
        [exampleVisit ''3'' True 0 10, exampleVisit ''3'' False 600 (- 10)] [] None)
   \<and> boardingBeforeAlighting
     (exampleRoute ''V002''
        [exampleVisit ''3'' True 0 10, exampleVisit ''3'' False 600 (- 10)] [] None)
   \<and> total_passengers (routeSummary
     (exampleRoute ''V002''
        [exampleVisit ''3'' True 0 10, exampleVisit ''3'' False 600 (- 10)] [] None)
     (exampleMetrics 600 180 4000) 1) = 10
   \<and> vehicle_capacity (routeSummary
     (exampleRoute ''V002''
        [exampleVisit ''3'' True 0 10, exampleVisit ''3'' False 600 (- 10)] [] None)
     (exampleMetrics 600 180 4000) 1) = 7"
  by (simp add: wellFormedLoad_def boardingBeforeAlighting_def getPassengersAlongRoute_def
      VEHICLE_CAPACITY_def routeSummary_def exampleRoute_def exampleVisit_def)

text \<open>
  Claim C8, amended. For every route whose running load stays between 0 and the
  capacity of the vehicle and on which every visit that takes passengers aboard comes
  before every visit that sets passengers down, the total of the positive amounts, which
  the summary reports as \<open>total_passengers\<close>, does not exceed the capacity of the
  vehicle. It does not exceed the \<open>vehicle_capacity\<close> of the summary, which is the
  capacity constant of the configuration, when moreover the capacity of the vehicle is
  at most that constant.
\<close>

theorem getPassengersAlongRoute_within_capacity:
  "(wellFormedLoad cap r \<and> boardingBeforeAlighting r \<longrightarrow>
      getPassengersAlongRoute (Some r) \<le> cap
      \<and> total_passengers (routeSummary r m i) \<le> cap)
   \<and> (wellFormedLoad cap r \<and> cap \<le> VEHICLE_CAPACITY \<and> boardingBeforeAlighting r
        \<longrightarrow> total_passengers (routeSummary r m i) \<le> vehicle_capacity (routeSummary r m i))"
proof -
  have bound: "getPassengersAlongRoute (Some r) \<le> cap"
    if "wellFormedLoad cap r" "boardingBeforeAlighting r"
    using that
    unfolding getPassengersAlongRoute_Some wellFormedLoad_def boardingBeforeAlighting_def
    by (intro boarding_total_bounded) simp_all
  have fields: "total_passengers (routeSummary r m i) = getPassengersAlongRoute (Some r)"
    "vehicle_capacity (routeSummary r m i) = VEHICLE_CAPACITY"
    by (simp_all add: routeSummary_def)
  show ?thesis
    using bound by (auto simp: fields)
qed

text \<open>The amended claim C8 on a route of a vehicle of capacity 5, with two pickups
  followed by two drop-offs.\<close>

theorem getPassengersAlongRoute_within_capacity_witness:
  "wellFormedLoad 5
     (exampleRoute ''V001''
        [exampleVisit ''1'' True 0 2, exampleVisit ''2'' True 300 3,
         exampleVisit ''1'' False 600 (- 2), exampleVisit ''2'' False 1500 (- 3)] [] None)
   \<and> boardingBeforeAlighting
     (exampleRoute ''V001''
        [exampleVisit ''1'' True 0 2, exampleVisit ''2'' True 300 3,
         exampleVisit ''1'' False 600 (- 2), exampleVisit ''2'' False 1500 (- 3)] [] None)
   \<and> (5 :: int) \<le> VEHICLE_CAPACITY
   \<and> getPassengersAlongRoute (Some
     (exampleRoute ''V001''
        [exampleVisit ''1'' True 0 2, exampleVisit ''2'' True 300 3,
         exampleVisit ''1'' False 600 (- 2), exampleVisit ''2'' False 1500 (- 3)] [] None)) \<le> 5
   \<and> total_passengers (routeSummary
     (exampleRoute ''V001''
        [exampleVisit ''1'' True 0 2, exampleVisit ''2'' True 300 3,
         exampleVisit ''1'' False 600 (- 2), exampleVisit ''2'' False 1500 (- 3)] [] None)
     (exampleMetrics 1500 360 9000) 0)
     \<le> vehicle_capacity (routeSummary
     (exampleRoute ''V001''
        [exampleVisit ''1'' True 0 2, exampleVisit ''2'' True 300 3,
         exampleVisit ''1'' False 600 (- 2), exampleVisit ''2'' False 1500 (- 3)] [] None)
     (exampleMetrics 1500 360 9000) 0)"
proof -
  let ?r = "exampleRoute ''V001''
        [exampleVisit ''1'' True 0 2, exampleVisit ''2'' True 300 3,
         exampleVisit ''1'' False 600 (- 2), exampleVisit ''2'' False 1500 (- 3)] [] None"
  have h: "wellFormedLoad 5 ?r" "boardingBeforeAlighting ?r"
    by (simp_all add: wellFormedLoad_def boardingBeforeAlighting_def
        exampleRoute_def exampleVisit_def)
  have c: "(5::int) \<le> VEHICLE_CAPACITY" by (simp add: VEHICLE_CAPACITY_def)
  note t = getPassengersAlongRoute_within_capacity [of 5 ?r "exampleMetrics 1500 360 9000" 0]
  from h c t have a: "getPassengersAlongRoute (Some ?r) \<le> 5" by blast
  from h c t have b: "total_passengers (routeSummary ?r (exampleMetrics 1500 360 9000) 0)
     \<le> vehicle_capacity (routeSummary ?r (exampleMetrics 1500 360 9000) 0)" by blast
  from h c a b show ?thesis by blast
qed

section \<open>Cumulative distance reconstructor\<close>

lemma visitStep_fst: "fst (visitStep trs st v i) = fst st + arrivalDistance trs v"
  by (simp add: visitStep_def arrivalDistance_def Let_def split: list.splits)

lemma forEachVisit_fst:
  "fst (forEachVisit trs i vs st) = fst st + sum_list (map (arrivalDistance trs) vs)"
  by (induction vs arbitrary: i st) (simp_all add: visitStep_fst add.assoc)

lemma cumulativeDistanceAfter_sum:
  "cumulativeDistanceAfter dv trs k = sum_list (map (arrivalDistance trs) (take (Suc k) dv))"
  by (simp add: cumulativeDistanceAfter_def forEachVisit_fst)




lemma visitStep_snd:
  "snd (visitStep trs st v i) =
     (if matchingTransitions trs v = [] then snd st
      else (snd st)(getBookingIDFromShipment (Some v) \<mapsto>
              \<lparr>visitIndex = i, distanceMeters = fst st + arrivalDistance trs v\<rparr>))"
  by (simp add: visitStep_def arrivalDistance_def Let_def split: list.splits)

text \<open>Every entry of the result is an entry of the initial map or was written by a visit
  that has a matching transition, with the running total reached at that visit.\<close>

lemma forEachVisit_entry:
  "snd (forEachVisit trs i vs st) ident = Some e \<Longrightarrow>
     snd st ident = Some e
     \<or> (\<exists>k < length vs. visitIndex e = i + k
           \<and> ident = getBookingIDFromShipment (Some (vs ! k))
           \<and> matchingTransitions trs (vs ! k) \<noteq> []
           \<and> distanceMeters e = fst st + sum_list (map (arrivalDistance trs) (take (Suc k) vs)))"
proof (induction vs arbitrary: i st)
  case Nil
  then show ?case by simp
next
  case (Cons v vs)
  let ?st = "visitStep trs st v i"
  from Cons.prems have "snd (forEachVisit trs (Suc i) vs ?st) ident = Some e" by simp
  from Cons.IH [OF this] show ?case
  proof
    assume a: "snd ?st ident = Some e"
    show ?thesis
    proof (cases "snd st ident = Some e")
      case True
      then show ?thesis by simp
    next
      case False
      with a have "matchingTransitions trs v \<noteq> []"
        and "ident = getBookingIDFromShipment (Some v)"
        and "e = \<lparr>visitIndex = i, distanceMeters = fst st + arrivalDistance trs v\<rparr>"
        by (auto simp: visitStep_snd split: if_splits)
      then have "0 < length (v # vs) \<and> visitIndex e = i + 0
           \<and> ident = getBookingIDFromShipment (Some ((v # vs) ! 0))
           \<and> matchingTransitions trs ((v # vs) ! 0) \<noteq> []
           \<and> distanceMeters e = fst st + sum_list (map (arrivalDistance trs) (take (Suc 0) (v # vs)))"
        by simp
      then show ?thesis by blast
    qed
  next
    assume "\<exists>k < length vs. visitIndex e = Suc i + k
           \<and> ident = getBookingIDFromShipment (Some (vs ! k))
           \<and> matchingTransitions trs (vs ! k) \<noteq> []
           \<and> distanceMeters e = fst ?st + sum_list (map (arrivalDistance trs) (take (Suc k) vs))"
    then obtain k where k: "k < length vs" "visitIndex e = Suc i + k"
      "ident = getBookingIDFromShipment (Some (vs ! k))" "matchingTransitions trs (vs ! k) \<noteq> []"
      "distanceMeters e = fst ?st + sum_list (map (arrivalDistance trs) (take (Suc k) vs))"
      by blast
    then have "Suc k < length (v # vs) \<and> visitIndex e = i + Suc k
           \<and> ident = getBookingIDFromShipment (Some ((v # vs) ! Suc k))
           \<and> matchingTransitions trs ((v # vs) ! Suc k) \<noteq> []
           \<and> distanceMeters e = fst st + sum_list (map (arrivalDistance trs) (take (Suc (Suc k)) (v # vs)))"
      by (simp add: visitStep_fst add.assoc)
    then show ?thesis by blast
  qed
qed

text \<open>An identifier has no entry exactly when the initial map has none and no visit that
  derives it has a matching transition.\<close>

lemma forEachVisit_None:
  "snd (forEachVisit trs i vs st) ident = None \<longleftrightarrow>
     snd st ident = None
     \<and> (\<forall>k < length vs. getBookingIDFromShipment (Some (vs ! k)) = ident
            \<longrightarrow> matchingTransitions trs (vs ! k) = [])"
proof (induction vs arbitrary: i st)
  case Nil
  show ?case by simp
next
  case (Cons v vs)
  let ?P = "\<lambda>k. getBookingIDFromShipment (Some ((v # vs) ! k)) = ident
            \<longrightarrow> matchingTransitions trs ((v # vs) ! k) = []"
  have all: "(\<forall>k < length (v # vs). ?P k) \<longleftrightarrow> ?P 0 \<and> (\<forall>k < length vs. ?P (Suc k))"
    by (auto simp: less_Suc_eq_0_disj)
  have step: "snd (visitStep trs st v i) ident = None \<longleftrightarrow>
      snd st ident = None \<and> (getBookingIDFromShipment (Some v) = ident \<longrightarrow> matchingTransitions trs v = [])"
    by (auto simp: visitStep_snd)
  have "snd (forEachVisit trs i (v # vs) st) ident = None \<longleftrightarrow>
      snd (visitStep trs st v i) ident = None
      \<and> (\<forall>k < length vs. getBookingIDFromShipment (Some (vs ! k)) = ident
            \<longrightarrow> matchingTransitions trs (vs ! k) = [])"
    by (simp add: Cons.IH)
  also have "\<dots> \<longleftrightarrow> snd st ident = None \<and> ?P 0 \<and> (\<forall>k < length vs. ?P (Suc k))"
    unfolding step by auto
  also have "\<dots> \<longleftrightarrow> snd st ident = None \<and> (\<forall>k < length (v # vs). ?P k)"
    unfolding all ..
  finally show ?case .
qed


lemma getCumulativeDistances_entry:
  assumes "getCumulativeDistances dv trs ident = Some e"
  shows "visitIndex e < length dv
     \<and> ident = getBookingIDFromShipment (Some (dv ! visitIndex e))
     \<and> matchingTransitions trs (dv ! visitIndex e) \<noteq> []
     \<and> distanceMeters e = cumulativeDistanceAfter dv trs (visitIndex e)"
  using forEachVisit_entry [OF assms [unfolded getCumulativeDistances_def]]
  by (auto simp: cumulativeDistanceAfter_sum)

section \<open>Missing distance entries in the views\<close>

lemma getCumulativeDistances_None:
  "getCumulativeDistances dv trs ident = None \<longleftrightarrow>
     (\<forall>k < length dv. getBookingIDFromShipment (Some (dv ! k)) = ident
        \<longrightarrow> matchingTransitions trs (dv ! k) = [])"
  by (simp add: getCumulativeDistances_def forEachVisit_None)


lemma visitDetail_Inr:
  assumes "visitDetail bookings pickup cd i v k = Inr d"
  shows "detail_route_number d = i + 1 \<and> visit_index d = k
     \<and> booking_id d = getBookingIDFromShipment (Some v)
     \<and> distance d = distanceOrZero (cd (getBookingIDFromShipment (Some v)))
     \<and> travel_time d = getVisitTravelTime (Some v)
     \<and> pax_count d = getPassengersVisit v pickup"
  using assms by (auto simp: visitDetail_def Let_def split: sum.splits)

lemma routeDetail_Inr:
  assumes "routeDetail bookings pickup r i = Inr d"
  shows "mapWithIndex (visitDetail bookings pickup
           (getCumulativeDistances (filter (\<lambda>v. \<not> isPickup v) (visits r)) (transitions r)) i) 0
           (if pickup then filter (\<lambda>v. isPickup v) (visits r)
            else filter (\<lambda>v. \<not> isPickup v) (visits r)) = Inr (detail_visits d)"
  using assms by (auto simp: routeDetail_def Let_def split: sum.splits)

lemma routeDetail_total:
  assumes "\<And>v. v \<in> set (visits r) \<Longrightarrow> \<exists>ref. getReferenceBooking bookings v = Inr ref"
  shows "\<exists>d. routeDetail bookings pickup r i = Inr d"
proof -
  let ?sel = "if pickup then filter (\<lambda>v. isPickup v) (visits r)
            else filter (\<lambda>v. \<not> isPickup v) (visits r)"
  let ?cd = "getCumulativeDistances (filter (\<lambda>v. \<not> isPickup v) (visits r)) (transitions r)"
  have "\<exists>ys. mapWithIndex (visitDetail bookings pickup ?cd i) 0 ?sel = Inr ys"
  proof (rule mapWithIndex_total)
    fix k assume "k < length ?sel"
    then have "?sel ! k \<in> set ?sel" by (rule nth_mem)
    then have "?sel ! k \<in> set (visits r)" by (auto split: if_splits)
    from assms [OF this] show "\<exists>y. visitDetail bookings pickup ?cd i (?sel ! k) (0 + k) = Inr y"
      by (auto simp: visitDetail_def Let_def)
  qed
  then show ?thesis by (auto simp: routeDetail_def Let_def)
qed

text \<open>
  Claim C4, as stated, says that a drop-off visit with no matching transition leaves the
  result without an entry for its booking id and is rendered with distance 0. Take two
  drop-offs with the labels \<open>2\<close> and \<open>Booking 2\<close>, which derive the same booking id 2,
  and one transition that arrives at the second. No transition arrives at the first,
  yet the result has an entry under its booking id (the one written by the second
  visit), and the flat legacy view renders the first visit with distance 5.
\<close>

theorem missing_entry_another_visit_same_id:
  "matchingTransitions [exampleTransition 150 50 5] (exampleVisit ''2'' False 100 (- 1)) = []
   \<and> getCumulativeDistances
        [exampleVisit ''2'' False 100 (- 1), exampleVisit ''Booking 2'' False 200 (- 1)]
        [exampleTransition 150 50 5]
        (getBookingIDFromShipment (Some (exampleVisit ''2'' False 100 (- 1))))
      = Some \<lparr>visitIndex = 1, distanceMeters = 5\<rparr>
   \<and> routeRecords
        [exampleBooking ''2'' (exampleLocation 1 2) (exampleLocation 3 4) 1,
         exampleBooking ''Booking 2'' (exampleLocation 1 2) (exampleLocation 7 8) 1]
        (exampleRoute ''V001''
           [exampleVisit ''2'' False 100 (- 1), exampleVisit ''Booking 2'' False 200 (- 1)]
           [exampleTransition 150 50 5] None) 0
      = Inr [\<lparr>num_ruta = 1, num_viaje = 1, posicion_en_ruta = - 1, cod_cliente = Num 0,
              lat = Some 1, lng = Some 2, distancia = 0, tiempo_viaje = 0\<rparr>,
             \<lparr>num_ruta = 1, num_viaje = 1, posicion_en_ruta = 0, cod_cliente = Num 2,
              lat = Some 3, lng = Some 4, distancia = 5, tiempo_viaje = 2\<rparr>,
             \<lparr>num_ruta = 1, num_viaje = 1, posicion_en_ruta = 1, cod_cliente = Num 2,
              lat = Some 7, lng = Some 8, distancia = 5, tiempo_viaje = 3\<rparr>]"
  by (simp add: view_eval)

text \<open>
  Claim C4, amended. A drop-off visit with no matching transition writes no entry of its
  own. The result has no entry under the visit's booking id provided that no drop-off
  visit of the route that derives the same booking id has a matching transition (entries
  are keyed by booking id, so another visit with the same id may have written one).
  Whenever the entry for a drop-off visit's booking id is missing, the flat legacy view
  and the detailed view of drop-offs give that visit the distance 0; and both views
  return, whatever entries are missing, as soon as every visit of the route resolves to
  a booking.
\<close>

theorem missing_entry_rendered_as_zero:
  "(k < length dv
      \<and> (\<forall>j < length dv. getBookingIDFromShipment (Some (dv ! j)) = getBookingIDFromShipment (Some (dv ! k))
             \<longrightarrow> matchingTransitions trs (dv ! j) = [])
      \<longrightarrow> getCumulativeDistances dv trs (getBookingIDFromShipment (Some (dv ! k))) = None)
   \<and> (k < length dv \<and> matchingTransitions trs (dv ! k) = []
        \<and> getCumulativeDistances dv trs ident = Some e \<longrightarrow> visitIndex e \<noteq> k)
   \<and> (routeRecords bookings r i = Inr records
        \<and> n < length (filter (\<lambda>v. \<not> isPickup v) (visits r))
        \<and> getCumulativeDistances (filter (\<lambda>v. \<not> isPickup v) (visits r)) (transitions r)
             (getBookingIDFromShipment (Some (filter (\<lambda>v. \<not> isPickup v) (visits r) ! n))) = None
        \<longrightarrow> distancia (records ! Suc n) = 0)
   \<and> (routeDetail bookings False r i = Inr d
        \<and> n < length (filter (\<lambda>v. \<not> isPickup v) (visits r))
        \<and> getCumulativeDistances (filter (\<lambda>v. \<not> isPickup v) (visits r)) (transitions r)
             (getBookingIDFromShipment (Some (filter (\<lambda>v. \<not> isPickup v) (visits r) ! n))) = None
        \<longrightarrow> distance (detail_visits d ! n) = 0)
   \<and> ((\<forall>v \<in> set (visits r). \<exists>ref. getReferenceBooking bookings v = Inr ref) \<longrightarrow>
        (\<exists>records. routeRecords bookings r i = Inr records)
        \<and> (\<exists>d. routeDetail bookings pickup r i = Inr d))"
proof (intro conjI impI)
  assume "k < length dv
      \<and> (\<forall>j < length dv. getBookingIDFromShipment (Some (dv ! j)) = getBookingIDFromShipment (Some (dv ! k))
             \<longrightarrow> matchingTransitions trs (dv ! j) = [])"
  then show "getCumulativeDistances dv trs (getBookingIDFromShipment (Some (dv ! k))) = None"
    by (simp add: getCumulativeDistances_None)
next
  assume a: "k < length dv \<and> matchingTransitions trs (dv ! k) = []
        \<and> getCumulativeDistances dv trs ident = Some e"
  then have "matchingTransitions trs (dv ! visitIndex e) \<noteq> []"
    using getCumulativeDistances_entry [of dv trs ident e] by simp
  with a show "visitIndex e \<noteq> k" by auto
next
  let ?dv = "filter (\<lambda>v. \<not> isPickup v) (visits r)"
  assume a: "routeRecords bookings r i = Inr records \<and> n < length ?dv
        \<and> getCumulativeDistances ?dv (transitions r) (getBookingIDFromShipment (Some (?dv ! n))) = None"
  then obtain start details where r: "records = start # details"
    and d: "mapWithIndex (legacyVisit bookings (getCumulativeDistances ?dv (transitions r)) i) 0 ?dv
        = Inr details"
    using routeRecords_Inr [of bookings r i records] by blast
  from mapWithIndex_Inr [OF d] a
  have "legacyVisit bookings (getCumulativeDistances ?dv (transitions r)) i (?dv ! n) n = Inr (details ! n)"
    by simp
  from legacyVisit_Inr [OF this] a r show "distancia (records ! Suc n) = 0"
    by (simp add: distanceOrZero_def)
next
  let ?dv = "filter (\<lambda>v. \<not> isPickup v) (visits r)"
  assume a: "routeDetail bookings False r i = Inr d \<and> n < length ?dv
        \<and> getCumulativeDistances ?dv (transitions r) (getBookingIDFromShipment (Some (?dv ! n))) = None"
  then have m: "mapWithIndex (visitDetail bookings False (getCumulativeDistances ?dv (transitions r)) i) 0 ?dv
      = Inr (detail_visits d)"
    using routeDetail_Inr [of bookings False r i d] by simp
  from mapWithIndex_Inr [OF m] a
  have "visitDetail bookings False (getCumulativeDistances ?dv (transitions r)) i (?dv ! n) n
      = Inr (detail_visits d ! n)" by simp
  from visitDetail_Inr [OF this] a show "distance (detail_visits d ! n) = 0"
    by (simp add: distanceOrZero_def)
next
  assume all: "\<forall>v \<in> set (visits r). \<exists>ref. getReferenceBooking bookings v = Inr ref"
  then show "\<exists>records. routeRecords bookings r i = Inr records"
    by (intro routeRecords_total) blast
  from all show "\<exists>d. routeDetail bookings pickup r i = Inr d"
    by (intro routeDetail_total) blast
qed

text \<open>The amended claim C4 on a route with two drop-offs of different booking ids, the
  first without an arriving transition.\<close>

theorem missing_entry_rendered_as_zero_witness:
  "getCumulativeDistances
      [exampleVisit ''Booking 1'' False 100 (- 1), exampleVisit ''Booking 2'' False 200 (- 1)]
      [exampleTransition 150 50 5]
      (getBookingIDFromShipment (Some (exampleVisit ''Booking 1'' False 100 (- 1)))) = None
   \<and> (\<exists>records.
        routeRecords
          [exampleBooking ''Booking 1'' (exampleLocation 1 2) (exampleLocation 3 4) 1,
           exampleBooking ''Booking 2'' (exampleLocation 1 2) (exampleLocation 7 8) 1]
          (exampleRoute ''V001''
             [exampleVisit ''Booking 1'' False 100 (- 1), exampleVisit ''Booking 2'' False 200 (- 1)]
             [exampleTransition 150 50 5] None) 0 = Inr records
        \<and> distancia (records ! 1) = 0)
   \<and> (\<exists>d.
        routeDetail
          [exampleBooking ''Booking 1'' (exampleLocation 1 2) (exampleLocation 3 4) 1,
           exampleBooking ''Booking 2'' (exampleLocation 1 2) (exampleLocation 7 8) 1]
          False
          (exampleRoute ''V001''
             [exampleVisit ''Booking 1'' False 100 (- 1), exampleVisit ''Booking 2'' False 200 (- 1)]
             [exampleTransition 150 50 5] None) 0 = Inr d
        \<and> distance (detail_visits d ! 0) = 0)"
proof -
  let ?v1 = "exampleVisit ''Booking 1'' False 100 (- 1)"
  let ?dv = "[?v1, exampleVisit ''Booking 2'' False 200 (- 1)]"
  let ?trs = "[exampleTransition 150 50 5]"
  let ?bs = "[exampleBooking ''Booking 1'' (exampleLocation 1 2) (exampleLocation 3 4) 1,
           exampleBooking ''Booking 2'' (exampleLocation 1 2) (exampleLocation 7 8) 1]"
  let ?r = "exampleRoute ''V001'' ?dv ?trs None"
  have dv: "filter (\<lambda>v. \<not> isPickup v) (visits ?r) = ?dv" "transitions ?r = ?trs" "?dv ! 0 = ?v1"
    by (simp_all add: exampleRoute_def exampleVisit_def)
  have h1: "0 < length ?dv
      \<and> (\<forall>j < length ?dv. getBookingIDFromShipment (Some (?dv ! j)) = getBookingIDFromShipment (Some (?dv ! 0))
             \<longrightarrow> matchingTransitions ?trs (?dv ! j) = [])"
    by (simp add: less_Suc_eq_0_disj matchingTransitions_def parse_eval exampleTransition_def)
  have h2: "\<forall>v \<in> set (visits ?r). \<exists>ref. getReferenceBooking ?bs v = Inr ref"
    by (simp add: getReferenceBooking_def example_defs exampleRoute_def)
  note t = missing_entry_rendered_as_zero [of 0 ?dv ?trs _ _ ?bs ?r 0 _ 0 _ False]
  from t h1 have none: "getCumulativeDistances ?dv ?trs (getBookingIDFromShipment (Some (?dv ! 0))) = None"
    by blast
  from t h2 obtain records d where rd: "routeRecords ?bs ?r 0 = Inr records"
    "routeDetail ?bs False ?r 0 = Inr d" by blast
  have n: "0 < length (filter (\<lambda>v. \<not> isPickup v) (visits ?r))
        \<and> getCumulativeDistances (filter (\<lambda>v. \<not> isPickup v) (visits ?r)) (transitions ?r)
             (getBookingIDFromShipment (Some (filter (\<lambda>v. \<not> isPickup v) (visits ?r) ! 0))) = None"
    using none by (simp only: dv) simp
  from rd(1) n missing_entry_rendered_as_zero [of 0 ?dv ?trs _ _ ?bs ?r 0 records 0 _ False]
  have a: "distancia (records ! Suc 0) = 0" by blast
  from rd(2) n missing_entry_rendered_as_zero [of 0 ?dv ?trs _ _ ?bs ?r 0 _ 0 d False]
  have b: "distance (detail_visits d ! 0) = 0" by blast
  from none rd a b show ?thesis by (simp only: dv One_nat_def) blast
qed


section \<open>Distances of the drop-off visits\<close>








section \<open>Request handler\<close>

lemma optimizeRoute_sent:
  "snd (optimizeRoute env now solve bookings vehicles) =
     (case createOptimizationClient env of
        Inl e \<Rightarrow> []
      | Inr projectId \<Rightarrow>
          [\<lparr>parent = ''projects/'' @ projectId,
            model_shipments = bookings,
            model_vehicles = vehicles,
            globalStartTime_seconds = dateToGoogleFormat now,
            globalEndTime_seconds = dateToGoogleFormat (now + 24 * 60 * 60 * 1000),
            populateTransitionPolylines = True,
            populatePolylines = True,
            considerRoadTraffic = False\<rparr>])"
  by (simp add: optimizeRoute_def Let_def split: sum.splits)

text \<open>A request that passes the validation, is transformed, and finds its credentials
  goes to the solver exactly once.\<close>

lemma optimizeRouteFunction_calls_solver:
  assumes "body req = Some b"
    and "body_bookings b = IsArray bs" "bs \<noteq> []"
    and "body_vehicles b = IsArray vs" "vs \<noteq> []"
    and "transformRequestData b = Inr (bookings, vehicles)"
    and "createOptimizationClient env = Inr projectId"
  shows "length (snd (optimizeRouteFunction env now solve req)) = 1"
proof -
  have "snd (optimizeRoute env now solve bookings vehicles) \<noteq> []
      \<and> length (snd (optimizeRoute env now solve bookings vehicles)) = 1"
    using assms(7) by (simp add: optimizeRoute_sent)
  then show ?thesis
    using assms(1-6)
    by (cases "optimizeRoute env now solve bookings vehicles")
       (auto simp: optimizeRouteFunction_def split: sum.splits)
qed

text \<open>A request without a body is rejected as well, with a message of its own.\<close>

lemma optimizeRouteFunction_rejects_missing_body:
  "body req = None \<Longrightarrow>
     optimizeRouteFunction env now solve req
       = (\<lparr>code = 400, payload = ClientError ''Request body is required''\<rparr>, [])"
  by (simp add: optimizeRouteFunction_def)

text \<open>
  Claim C7. For every inbound request (a request body) whose \<open>bookings\<close> property is
  absent or otherwise falsy, is not an array, or is an empty array, the handler answers
  with the status code 400 and the message \<open>At least one booking is required\<close>, and the
  list of requests it sent to the solver is empty: whatever the environment, the time
  and the solver are, the solver is not called.
\<close>

theorem optimizeRouteFunction_rejects_missing_bookings:
  "body req = Some b
   \<and> (body_bookings b = Falsy \<or> body_bookings b = NotArray \<or> body_bookings b = IsArray [])
   \<longrightarrow> optimizeRouteFunction env now solve req
         = (\<lparr>code = 400, payload = ClientError ''At least one booking is required''\<rparr>, [])"
  by (auto simp: optimizeRouteFunction_def)

text \<open>Claim C7 on a request with an empty array of bookings and one vehicle; the same
  request with one booking does reach the solver.\<close>

theorem optimizeRouteFunction_rejects_missing_bookings_witness:
  "body (exampleRequest (IsArray []) (IsArray [exampleRequestVehicle]))
     = Some \<lparr>body_bookings = IsArray [], body_vehicles = IsArray [exampleRequestVehicle],
             body_parameters = None\<rparr>
   \<and> optimizeRouteFunction exampleEnvironment 1700000000000 exampleSolver
        (exampleRequest (IsArray []) (IsArray [exampleRequestVehicle]))
       = (\<lparr>code = 400, payload = ClientError ''At least one booking is required''\<rparr>, [])
   \<and> length (snd (optimizeRouteFunction exampleEnvironment 1700000000000 exampleSolver
        (exampleRequest (IsArray [exampleRequestBooking]) (IsArray [exampleRequestVehicle])))) = 1"
proof -
  let ?b = "\<lparr>body_bookings = IsArray [], body_vehicles = IsArray [exampleRequestVehicle],
             body_parameters = None\<rparr>"
  have h: "body (exampleRequest (IsArray []) (IsArray [exampleRequestVehicle])) = Some ?b
     \<and> (body_bookings ?b = Falsy \<or> body_bookings ?b = NotArray \<or> body_bookings ?b = IsArray [])"
    by (simp add: exampleRequest_def)
  from h optimizeRouteFunction_rejects_missing_bookings
    [of "exampleRequest (IsArray []) (IsArray [exampleRequestVehicle])" ?b
        exampleEnvironment 1700000000000 exampleSolver]
  have a: "optimizeRouteFunction exampleEnvironment 1700000000000 exampleSolver
        (exampleRequest (IsArray []) (IsArray [exampleRequestVehicle]))
       = (\<lparr>code = 400, payload = ClientError ''At least one booking is required''\<rparr>, [])"
    by blast
  have c: "length (snd (optimizeRouteFunction exampleEnvironment 1700000000000 exampleSolver
        (exampleRequest (IsArray [exampleRequestBooking]) (IsArray [exampleRequestVehicle])))) = 1"
  proof (rule optimizeRouteFunction_calls_solver)
    show "body (exampleRequest (IsArray [exampleRequestBooking]) (IsArray [exampleRequestVehicle]))
      = Some \<lparr>body_bookings = IsArray [exampleRequestBooking],
               body_vehicles = IsArray [exampleRequestVehicle], body_parameters = None\<rparr>"
      by (simp add: exampleRequest_def)
    show "body_bookings \<lparr>body_bookings = IsArray [exampleRequestBooking],
               body_vehicles = IsArray [exampleRequestVehicle], body_parameters = None\<rparr>
        = IsArray [exampleRequestBooking]" by simp
    show "[exampleRequestBooking] \<noteq> []" by simp
    show "body_vehicles \<lparr>body_bookings = IsArray [exampleRequestBooking],
               body_vehicles = IsArray [exampleRequestVehicle], body_parameters = None\<rparr>
        = IsArray [exampleRequestVehicle]" by simp
    show "[exampleRequestVehicle] \<noteq> []" by simp
    show "transformRequestData \<lparr>body_bookings = IsArray [exampleRequestBooking],
               body_vehicles = IsArray [exampleRequestVehicle], body_parameters = None\<rparr>
        = Inr (projr (mapWithIndex (transformBooking 2) 0 [exampleRequestBooking]),
               projr (mapWithIndex (transformVehicle 90) 0 [exampleRequestVehicle]))"
      by (simp add: transformRequestData_def numberOr_def transformBooking_def transformVehicle_def
          exampleRequestBooking_def Let_def)
    show "createOptimizationClient exampleEnvironment = Inr ''project''"
      by (simp add: createOptimizationClient_def exampleEnvironment_def unset_def)
  qed
  from h a c show ?thesis by blast
qed

end
